theory Spec2Isabelle
  imports Main "HOL-Library.AList"
begin

section \<open>Python values, exceptions and the collaborators of the backend\<close>

text \<open>
  The development embeds \<^verbatim>\<open>anymail/backends/base.py\<close>: the class
  \<^verbatim>\<open>AnymailBaseBackend\<close> (the batch sender and the per-message send) and the class
  \<^verbatim>\<open>BasePayload\<close> (the attribute table, the converters and the setters).
  Python objects that the code only passes around are values of \<open>pyval\<close>; an exception
  is a value of \<open>exn\<close>, and a call that may raise returns \<open>exn + 'a\<close> with the
  exception on the left.
\<close>

type_synonym tzinfo = string

record datetime =
  year :: int
  month :: int
  day :: int
  hour :: int
  minute :: int
  second :: int
  microsecond :: int
  tzinfo :: "tzinfo option"

datatype date = Date (date_year: int) (date_month: int) (date_day: int)

datatype pyval =
    UNSET
  | PyNone
  | PyBool bool
  | PyInt int
  | PyStr string
  | PyList "pyval list"
  | PyTuple "pyval list"
  | PyDict "(string \<times> pyval) list"
  | PyDatetime datetime
  | PyDate date
  | PyObject string

text \<open>
  An exception instance is its class with the names of the classes it descends from
  (most specific first, \<^verbatim>\<open>Exception\<close> and \<^verbatim>\<open>object\<close> left out) and its message.
  \<^verbatim>\<open>except C\<close> and \<^verbatim>\<open>isinstance(e, C)\<close> ask whether \<^verbatim>\<open>C\<close> is among them.
\<close>

datatype exn = Exn (exn_mro: "string list") (exn_msg: string)

definition isinstance_exn :: "exn \<Rightarrow> string \<Rightarrow> bool" where
  "isinstance_exn e c \<longleftrightarrow> c \<in> set (exn_mro e)"

definition NotImplementedError :: "string \<Rightarrow> exn" where
  "NotImplementedError msg = Exn [''NotImplementedError'', ''RuntimeError''] msg"

definition AttributeError :: "string \<Rightarrow> exn" where
  "AttributeError msg = Exn [''AttributeError''] msg"

definition TypeError :: "string \<Rightarrow> exn" where
  "TypeError msg = Exn [''TypeError''] msg"

definition ValueError :: "string \<Rightarrow> exn" where
  "ValueError msg = Exn [''ValueError''] msg"

text \<open>
  Modelled from the spec: the module \<^verbatim>\<open>anymail/exceptions.py\<close> is not among the
  sources. The spec (section 7) says that the unsupported-feature and all-refused errors
  descend from one common taxonomy root, which the code names \<^verbatim>\<open>AnymailError\<close>.
\<close>

definition AnymailUnsupportedFeature :: "string \<Rightarrow> exn" where
  "AnymailUnsupportedFeature msg = Exn [''AnymailUnsupportedFeature'', ''AnymailError''] msg"

definition AnymailRecipientsRefused :: exn where
  "AnymailRecipientsRefused = Exn [''AnymailRecipientsRefused'', ''AnymailError''] []"

text \<open>
  Modelled from the spec: the class \<^verbatim>\<open>AnymailStatus\<close> of \<^verbatim>\<open>anymail/message.py\<close>
  is not among the sources. The spec (section 3) describes the aggregate status as the
  set of distinct per-recipient statuses observed for a message, together with the raw
  provider response; a per-recipient status mapping sends a recipient address to one word
  of the status vocabulary.
\<close>

record anymail_status =
  status :: "string set"
  per_recipient :: "(string \<times> string) list"
  esp_response :: "pyval option"

definition AnymailStatus :: anymail_status where
  "AnymailStatus = \<lparr>status = {}, per_recipient = [], esp_response = None\<rparr>"

definition dict_update :: "('k \<times> 'v) list \<Rightarrow> ('k \<times> 'v) list \<Rightarrow> ('k \<times> 'v) list" where
  "dict_update d v = fold (\<lambda>(k, x). AList.update k x) v d"

definition set_recipient_status :: "anymail_status \<Rightarrow> (string \<times> string) list \<Rightarrow> anymail_status" where
  "set_recipient_status st rs =
     (let recs = dict_update (per_recipient st) rs
      in st\<lparr>per_recipient := recs, status := set (map snd recs)\<rparr>)"

text \<open>
  The message is Django's \<^verbatim>\<open>EmailMessage\<close>: its constructor always sets the three
  recipient lists, every other attribute is read with \<^verbatim>\<open>getattr(message, attr, UNSET)\<close>,
  and \<^verbatim>\<open>recipients()\<close> is the concatenation \<^verbatim>\<open>to + cc + bcc\<close>.
\<close>

record message =
  to :: "pyval list"
  cc :: "pyval list"
  bcc :: "pyval list"
  content_subtype :: string
  encoding :: pyval
  other_attrs :: "string \<Rightarrow> pyval"
  anymail_status :: anymail_status

definition getattr_message :: "message \<Rightarrow> string \<Rightarrow> pyval" where
  "getattr_message m attr =
     (if attr = ''to'' then PyList (to m)
      else if attr = ''cc'' then PyList (cc m)
      else if attr = ''bcc'' then PyList (bcc m)
      else other_attrs m attr)"

definition recipients :: "message \<Rightarrow> pyval list" where
  "recipients m = to m @ cc m @ bcc m"

text \<open>
  Everything outside the code (the provider's session, the network, the state of the
  signal receivers) is the world \<open>'w\<close>. The log records, in order, each call the code
  makes to a collaborator; the collaborators cannot write it.
\<close>

datatype event =
    EvOpen
  | EvClose
  | EvPreSend nat
  | EvBuildPayload
  | EvPostToEsp
  | EvParseRecipientStatus
  | EvPostSend nat

record 'w state =
  world :: 'w
  log :: "event list"

definition called :: "event \<Rightarrow> 'w \<Rightarrow> 'w state \<Rightarrow> 'w state" where
  "called ev w s = \<lparr>world = w, log = log s @ [ev]\<rparr>"

text \<open>
  The receivers connected to the two signals of \<^verbatim>\<open>anymail/signals.py\<close>. A receiver is
  called with the message and the provider's name; a pre-send receiver may change the
  message.
\<close>

record 'w signals =
  pre_send :: "(string \<Rightarrow> message \<Rightarrow> 'w \<Rightarrow> (exn + unit) \<times> message \<times> 'w) list"
  post_send :: "(string \<Rightarrow> message \<Rightarrow> 'w \<Rightarrow> (exn + pyval) \<times> 'w) list"

text \<open>
  A backend is an instance of a subclass of \<^verbatim>\<open>AnymailBaseBackend\<close>: its settings and
  the methods the subclass overrides (\<open>None\<close> where it inherits the base method).
\<close>

record ('w, 'p) backend =
  cls_name :: string
  esp_name :: "string option"
  fail_silently :: bool
  ignore_unsupported_features :: bool
  ignore_recipient_status :: bool
  send_defaults :: "string \<Rightarrow> pyval"
  open_impl :: "('w \<Rightarrow> (exn + bool) \<times> 'w) option"
  close_impl :: "('w \<Rightarrow> (exn + unit) \<times> 'w) option"
  build_message_payload_impl ::
    "(message \<Rightarrow> (string \<Rightarrow> pyval) \<Rightarrow> 'w \<Rightarrow> (exn + 'p) \<times> 'w) option"
  post_to_esp_impl :: "('p \<Rightarrow> message \<Rightarrow> 'w \<Rightarrow> (exn + pyval) \<times> 'w) option"
  parse_recipient_status_impl ::
    "(pyval \<Rightarrow> 'p \<Rightarrow> message \<Rightarrow> 'w \<Rightarrow> (exn + (string \<times> string) list) \<times> 'w) option"

section \<open>AnymailBaseBackend\<close>

definition must_implement :: "string \<Rightarrow> string \<Rightarrow> exn" where
  "must_implement cls what = NotImplementedError (cls @ '' must implement '' @ what)"

definition get_esp_name :: "('w, 'p) backend \<Rightarrow> exn + string" where
  "get_esp_name b =
     (case esp_name b of
        None \<Rightarrow> Inl (NotImplementedError (cls_name b @ '' must declare esp_name class attr''))
      | Some n \<Rightarrow> Inr n)"

text \<open>
  \<open>open_session\<close> and \<open>close_session\<close> are the calls \<^verbatim>\<open>self.open()\<close> and
  \<^verbatim>\<open>self.close()\<close>: the method of the subclass if it has one, else the base method,
  which returns \<^verbatim>\<open>False\<close> (for \<^verbatim>\<open>open\<close>) or does nothing. The three methods after
  them raise \<^verbatim>\<open>NotImplementedError\<close> in the base class.
\<close>

definition open_session :: "('w, 'p) backend \<Rightarrow> 'w state \<Rightarrow> (exn + bool) \<times> 'w state" where
  "open_session b s =
     (case open_impl b of
        None \<Rightarrow> (Inr False, called EvOpen (world s) s)
      | Some f \<Rightarrow> (case f (world s) of (r, w) \<Rightarrow> (r, called EvOpen w s)))"

definition close_session :: "('w, 'p) backend \<Rightarrow> 'w state \<Rightarrow> (exn + unit) \<times> 'w state" where
  "close_session b s =
     (case close_impl b of
        None \<Rightarrow> (Inr (), called EvClose (world s) s)
      | Some f \<Rightarrow> (case f (world s) of (r, w) \<Rightarrow> (r, called EvClose w s)))"

definition build_message_payload ::
  "('w, 'p) backend \<Rightarrow> message \<Rightarrow> (string \<Rightarrow> pyval) \<Rightarrow> 'w state \<Rightarrow> (exn + 'p) \<times> 'w state" where
  "build_message_payload b m defaults s =
     (case build_message_payload_impl b of
        None \<Rightarrow> (Inl (must_implement (cls_name b) ''build_message_payload''),
                 called EvBuildPayload (world s) s)
      | Some f \<Rightarrow> (case f m defaults (world s) of (r, w) \<Rightarrow> (r, called EvBuildPayload w s)))"

definition post_to_esp ::
  "('w, 'p) backend \<Rightarrow> 'p \<Rightarrow> message \<Rightarrow> 'w state \<Rightarrow> (exn + pyval) \<times> 'w state" where
  "post_to_esp b payload m s =
     (case post_to_esp_impl b of
        None \<Rightarrow> (Inl (must_implement (cls_name b) ''post_to_esp''),
                 called EvPostToEsp (world s) s)
      | Some f \<Rightarrow> (case f payload m (world s) of (r, w) \<Rightarrow> (r, called EvPostToEsp w s)))"

definition parse_recipient_status ::
  "('w, 'p) backend \<Rightarrow> pyval \<Rightarrow> 'p \<Rightarrow> message \<Rightarrow> 'w state
     \<Rightarrow> (exn + (string \<times> string) list) \<times> 'w state" where
  "parse_recipient_status b response payload m s =
     (case parse_recipient_status_impl b of
        None \<Rightarrow> (Inl (must_implement (cls_name b) ''parse_recipient_status''),
                 called EvParseRecipientStatus (world s) s)
      | Some f \<Rightarrow> (case f response payload m (world s) of
                    (r, w) \<Rightarrow> (r, called EvParseRecipientStatus w s)))"

text \<open>
  \<^verbatim>\<open>Signal.send\<close> of Django calls the receivers in order and lets the first exception
  propagate; the receivers after it are not called.
\<close>

fun signal_send ::
  "(string \<Rightarrow> message \<Rightarrow> 'w \<Rightarrow> (exn + unit) \<times> message \<times> 'w) list \<Rightarrow> nat \<Rightarrow> string
     \<Rightarrow> message \<Rightarrow> 'w state \<Rightarrow> (exn + unit) \<times> message \<times> 'w state" where
  "signal_send [] i name m s = (Inr (), m, s)"
| "signal_send (r # rs) i name m s =
     (case r name m (world s) of
        (Inl e, m', w) \<Rightarrow> (Inl e, m', called (EvPreSend i) w s)
      | (Inr _, m', w) \<Rightarrow> signal_send rs (Suc i) name m' (called (EvPreSend i) w s))"

text \<open>
  Modelled from the spec: \<^verbatim>\<open>Signal.send_robust\<close> is Django's and not among the sources.
  The spec (sections 6 and 7) says that the errors of the post-send observers are
  collected from all observers, none short-circuiting the others: every receiver is called
  in order, and its response is the exception it raised or the value it returned.
\<close>

fun send_robust ::
  "(string \<Rightarrow> message \<Rightarrow> 'w \<Rightarrow> (exn + pyval) \<times> 'w) list \<Rightarrow> nat \<Rightarrow> string
     \<Rightarrow> message \<Rightarrow> 'w state \<Rightarrow> (exn + pyval) list \<times> 'w state" where
  "send_robust [] i name m s = ([], s)"
| "send_robust (r # rs) i name m s =
     (case r name m (world s) of
        (response, w) \<Rightarrow>
          (case send_robust rs (Suc i) name m (called (EvPostSend i) w s) of
             (responses, s') \<Rightarrow> (response # responses, s')))"

definition run_pre_send ::
  "'w signals \<Rightarrow> ('w, 'p) backend \<Rightarrow> message \<Rightarrow> 'w state \<Rightarrow> (exn + bool) \<times> message \<times> 'w state" where
  "run_pre_send sg b m s =
     (case get_esp_name b of
        Inl e \<Rightarrow> (if isinstance_exn e ''AnymailCancelSend'' then (Inr False, m, s) else (Inl e, m, s))
      | Inr name \<Rightarrow>
          (case signal_send (pre_send sg) 0 name m s of
             (Inl e, m', s') \<Rightarrow>
               (if isinstance_exn e ''AnymailCancelSend'' then (Inr False, m', s')
                else (Inl e, m', s'))
           | (Inr _, m', s') \<Rightarrow> (Inr True, m', s')))"

text \<open>
  The loop of \<^verbatim>\<open>run_post_send\<close> over the responses: it raises the first response that
  is an exception (\<open>exn\<close> holds the instances of \<^verbatim>\<open>Exception\<close>).
\<close>

fun raise_first :: "(exn + pyval) list \<Rightarrow> exn + unit" where
  "raise_first [] = Inr ()"
| "raise_first (Inl e # results) = Inl e"
| "raise_first (Inr v # results) = raise_first results"

definition run_post_send ::
  "'w signals \<Rightarrow> ('w, 'p) backend \<Rightarrow> message \<Rightarrow> 'w state \<Rightarrow> (exn + unit) \<times> 'w state" where
  "run_post_send sg b m s =
     (case get_esp_name b of
        Inl e \<Rightarrow> (Inl e, s)
      | Inr name \<Rightarrow>
          (case send_robust (post_send sg) 0 name m s of
             (results, s') \<Rightarrow> (raise_first results, s')))"

definition raise_for_recipient_status ::
  "('w, 'p) backend \<Rightarrow> anymail_status \<Rightarrow> pyval \<Rightarrow> 'p \<Rightarrow> message \<Rightarrow> exn + unit" where
  "raise_for_recipient_status b st response payload m =
     (if \<not> ignore_recipient_status b then
        (if status st \<subseteq> {''invalid'', ''rejected''} then Inl AnymailRecipientsRefused
         else Inr ())
      else Inr ())"

text \<open>The method \<^verbatim>\<open>_send\<close>: the result is what it returns or raises, the message with
  its status slot as the call left it, and the state.\<close>

definition send_message ::
  "'w signals \<Rightarrow> ('w, 'p) backend \<Rightarrow> message \<Rightarrow> 'w state \<Rightarrow> (exn + bool) \<times> message \<times> 'w state" where
  "send_message sg b message s =
     (case run_pre_send sg b (message\<lparr>anymail_status := AnymailStatus\<rparr>) s of
        (Inl e, m1, s1) \<Rightarrow> (Inl e, m1, s1)
      | (Inr False, m1, s1) \<Rightarrow> (Inr False, m1, s1)
      | (Inr True, m1, s1) \<Rightarrow>
          (if recipients m1 = [] then (Inr False, m1, s1)
           else
             (case build_message_payload b m1 (send_defaults b) s1 of
                (Inl e, s2) \<Rightarrow> (Inl e, m1, s2)
              | (Inr payload, s2) \<Rightarrow>
                  (case post_to_esp b payload m1 s2 of
                     (Inl e, s3) \<Rightarrow> (Inl e, m1, s3)
                   | (Inr response, s3) \<Rightarrow>
                       (let m2 = m1\<lparr>anymail_status :=
                                     (anymail_status m1)\<lparr>esp_response := Some response\<rparr>\<rparr>
                        in case parse_recipient_status b response payload m2 s3 of
                             (Inl e, s4) \<Rightarrow> (Inl e, m2, s4)
                           | (Inr recipient_status, s4) \<Rightarrow>
                               (let m3 = m2\<lparr>anymail_status :=
                                     set_recipient_status (anymail_status m2) recipient_status\<rparr>
                                in case run_post_send sg b m3 s4 of
                                     (Inl e, s5) \<Rightarrow> (Inl e, m3, s5)
                                   | (Inr _, s5) \<Rightarrow>
                                       (case raise_for_recipient_status b (anymail_status m3)
                                               response payload m3 of
                                          Inl e \<Rightarrow> (Inl e, m3, s5)
                                        | Inr _ \<Rightarrow> (Inr True, m3, s5))))))))"

text \<open>The loop of \<^verbatim>\<open>send_messages\<close> with its inner \<^verbatim>\<open>try\<close>: the messages still to
  send, the count so far and the state; the messages come back as the loop left them.\<close>

fun send_loop ::
  "'w signals \<Rightarrow> ('w, 'p) backend \<Rightarrow> message list \<Rightarrow> nat \<Rightarrow> 'w state
     \<Rightarrow> (exn + nat) \<times> message list \<times> 'w state" where
  "send_loop sg b [] num_sent s = (Inr num_sent, [], s)"
| "send_loop sg b (message # rest) num_sent s =
     (case send_message sg b message s of
        (Inl e, m', s') \<Rightarrow>
          (if isinstance_exn e ''AnymailError'' then
             (if fail_silently b then
                (case send_loop sg b rest num_sent s' of
                   (r, ms, s'') \<Rightarrow> (r, m' # ms, s''))
              else (Inl e, m' # rest, s'))
           else (Inl e, m' # rest, s'))
      | (Inr sent, m', s') \<Rightarrow>
          (case send_loop sg b rest (if sent then num_sent + 1 else num_sent) s' of
             (r, ms, s'') \<Rightarrow> (r, m' # ms, s'')))"

definition send_messages ::
  "'w signals \<Rightarrow> ('w, 'p) backend \<Rightarrow> message list \<Rightarrow> 'w state
     \<Rightarrow> (exn + nat) \<times> message list \<times> 'w state" where
  "send_messages sg b email_messages s =
     (if email_messages = [] then (Inr 0, email_messages, s)
      else
        (case open_session b s of
           (Inl e, s1) \<Rightarrow> (Inl e, email_messages, s1)
         | (Inr created_session, s1) \<Rightarrow>
             (case send_loop sg b email_messages 0 s1 of
                (r, ms, s2) \<Rightarrow>
                  (if created_session then
                     (case close_session b s2 of
                        (Inl e, s3) \<Rightarrow> (Inl e, ms, s3)
                      | (Inr _, s3) \<Rightarrow> (r, ms, s3))
                   else (r, ms, s2)))))"

section \<open>BasePayload\<close>

subsection \<open>Python operations the payload code relies on\<close>

text \<open>
  Iteration (\<^verbatim>\<open>for x in v\<close>), unpacking of a pair (\<^verbatim>\<open>for (a, b) in v\<close>), truth
  (\<^verbatim>\<open>a or b\<close>) and \<^verbatim>\<open>'%s' % v\<close>. \<open>UNSET\<close> is a bare \<^verbatim>\<open>object()\<close>; a
  \<open>PyObject\<close> stands for any other object and supports none of these operations
  beyond what every object does. \<open>py_str\<close> is exact on strings, \<^verbatim>\<open>None\<close> and the
  booleans; it is used for the text of one error message only.
\<close>

fun py_iter :: "pyval \<Rightarrow> exn + pyval list" where
  "py_iter (PyList xs) = Inr xs"
| "py_iter (PyTuple xs) = Inr xs"
| "py_iter (PyStr s) = Inr (map (\<lambda>c. PyStr [c]) s)"
| "py_iter (PyDict d) = Inr (map (\<lambda>(k, v). PyStr k) d)"
| "py_iter v = Inl (TypeError ''object is not iterable'')"

definition unpack2 :: "pyval \<Rightarrow> exn + (pyval \<times> pyval)" where
  "unpack2 v =
     (case py_iter v of
        Inl e \<Rightarrow> Inl e
      | Inr xs \<Rightarrow>
          (case xs of
             [a, b] \<Rightarrow> Inr (a, b)
           | _ \<Rightarrow> Inl (ValueError ''wrong number of values to unpack'')))"

fun py_truthy :: "pyval \<Rightarrow> bool" where
  "py_truthy PyNone = False"
| "py_truthy (PyBool b) = b"
| "py_truthy (PyInt i) = (i \<noteq> 0)"
| "py_truthy (PyStr s) = (s \<noteq> [])"
| "py_truthy (PyList xs) = (xs \<noteq> [])"
| "py_truthy (PyTuple xs) = (xs \<noteq> [])"
| "py_truthy (PyDict d) = (d \<noteq> [])"
| "py_truthy v = True"

fun py_str :: "pyval \<Rightarrow> string" where
  "py_str (PyStr s) = s"
| "py_str PyNone = ''None''"
| "py_str (PyBool b) = (if b then ''True'' else ''False'')"
| "py_str (PyObject s) = s"
| "py_str v = ''<object>''"

fun for_each :: "('a \<Rightarrow> 'p \<Rightarrow> exn + 'p) \<Rightarrow> 'a list \<Rightarrow> 'p \<Rightarrow> exn + 'p" where
  "for_each f [] p = Inr p"
| "for_each f (x # xs) p = (case f x p of Inl e \<Rightarrow> Inl e | Inr p' \<Rightarrow> for_each f xs p')"

fun list_comprehension :: "('a \<Rightarrow> exn + 'b) \<Rightarrow> 'a list \<Rightarrow> exn + 'b list" where
  "list_comprehension f [] = Inr []"
| "list_comprehension f (x # xs) =
     (case f x of
        Inl e \<Rightarrow> Inl e
      | Inr y \<Rightarrow> (case list_comprehension f xs of Inl e \<Rightarrow> Inl e | Inr ys \<Rightarrow> Inr (y # ys)))"

subsection \<open>Combiners\<close>

text \<open>
  Modelled from the spec: \<^verbatim>\<open>UNSET\<close>, \<^verbatim>\<open>last\<close> and \<^verbatim>\<open>combine\<close> come from
  \<^verbatim>\<open>anymail/utils.py\<close>, which is not among the sources. The spec (sections 3 and 4.2)
  gives the two strategies: override, where the caller's value wins if present and the
  default is taken otherwise; and merge, which fires only when both sides are present
  (list concatenation for sequences, key union with the caller's entries winning for
  mappings) and otherwise takes the side that is present. The spec does not say what
  merging gives when the two present values are not both sequences or both mappings; the
  model raises \<^verbatim>\<open>TypeError\<close> there.
\<close>

definition last_value :: "pyval \<Rightarrow> pyval \<Rightarrow> pyval" where
  "last_value default_value value = (if value \<noteq> UNSET then value else default_value)"

definition combine :: "pyval \<Rightarrow> pyval \<Rightarrow> exn + pyval" where
  "combine default_value value =
     (if default_value = UNSET then Inr value
      else if value = UNSET then Inr default_value
      else
        (case default_value of
           PyDict d \<Rightarrow>
             (case value of
                PyDict v \<Rightarrow> Inr (PyDict (dict_update d v))
              | _ \<Rightarrow> Inl (TypeError ''cannot merge a mapping with this value''))
         | PyList d \<Rightarrow>
             (case value of
                PyList v \<Rightarrow> Inr (PyList (d @ v))
              | _ \<Rightarrow> Inl (TypeError ''cannot concatenate a list with this value''))
         | PyTuple d \<Rightarrow>
             (case value of
                PyTuple v \<Rightarrow> Inr (PyTuple (d @ v))
              | _ \<Rightarrow> Inl (TypeError ''cannot concatenate a tuple with this value''))
         | _ \<Rightarrow> Inl (TypeError ''cannot combine these values'')))"

datatype combiner = Last | Combine

fun apply_combiner :: "combiner \<Rightarrow> pyval \<Rightarrow> pyval \<Rightarrow> exn + pyval" where
  "apply_combiner Last default_value value = Inr (last_value default_value value)"
| "apply_combiner Combine default_value value = combine default_value value"

subsection \<open>Converters\<close>

text \<open>
  What the converters call outside this module is a parameter: the constructors and
  the \<^verbatim>\<open>force_non_lazy\<close> functions of \<^verbatim>\<open>anymail/utils.py\<close>, Django's
  \<^verbatim>\<open>settings.DEFAULT_CHARSET\<close> and current timezone, and
  \<^verbatim>\<open>datetime.utcfromtimestamp\<close>. \<open>localize\<close> is the zone information that
  \<^verbatim>\<open>make_aware\<close> attaches to a naive datetime in a zone (or the error it raises, as
  for a local time that does not exist). A datetime is naive when it carries no zone
  information: every \<open>tzinfo\<close> is taken to give an offset.
\<close>

record env =
  ParsedEmail :: "pyval \<Rightarrow> pyval \<Rightarrow> exn + pyval"
  Attachment :: "pyval \<Rightarrow> pyval \<Rightarrow> exn + pyval"
  force_non_lazy :: "pyval \<Rightarrow> exn + pyval"
  force_non_lazy_list :: "pyval \<Rightarrow> exn + pyval"
  force_non_lazy_dict :: "pyval \<Rightarrow> exn + pyval"
  DEFAULT_CHARSET :: pyval
  get_current_timezone :: tzinfo
  localize :: "datetime \<Rightarrow> tzinfo \<Rightarrow> exn + tzinfo"
  utcfromtimestamp :: "pyval \<Rightarrow> exn + datetime"

definition utc :: tzinfo where
  "utc = ''UTC''"

definition is_naive :: "datetime \<Rightarrow> bool" where
  "is_naive value \<longleftrightarrow> tzinfo value = None"

definition make_aware :: "env \<Rightarrow> datetime \<Rightarrow> tzinfo \<Rightarrow> exn + datetime" where
  "make_aware env value timezone =
     (case localize env value timezone of
        Inl e \<Rightarrow> Inl e
      | Inr tz \<Rightarrow> Inr (value\<lparr>tzinfo := Some tz\<rparr>))"

definition parsed_email :: "env \<Rightarrow> message \<Rightarrow> pyval \<Rightarrow> exn + pyval" where
  "parsed_email env m address = ParsedEmail env address (encoding m)"

definition parsed_emails :: "env \<Rightarrow> message \<Rightarrow> pyval \<Rightarrow> exn + pyval" where
  "parsed_emails env m addresses =
     (case py_iter addresses of
        Inl e \<Rightarrow> Inl e
      | Inr xs \<Rightarrow>
          (case list_comprehension (\<lambda>address. ParsedEmail env address (encoding m)) xs of
             Inl e \<Rightarrow> Inl e
           | Inr ys \<Rightarrow> Inr (PyList ys)))"

definition prepped_alternatives :: "env \<Rightarrow> pyval \<Rightarrow> exn + pyval" where
  "prepped_alternatives env alternatives =
     (case py_iter alternatives of
        Inl e \<Rightarrow> Inl e
      | Inr xs \<Rightarrow>
          (case list_comprehension
                  (\<lambda>alt. case unpack2 alt of
                            Inl e \<Rightarrow> Inl e
                          | Inr (content, mimetype) \<Rightarrow>
                              (case force_non_lazy env content of
                                 Inl e \<Rightarrow> Inl e
                               | Inr c \<Rightarrow> Inr (PyTuple [c, mimetype]))) xs of
             Inl e \<Rightarrow> Inl e
           | Inr ys \<Rightarrow> Inr (PyList ys)))"

definition prepped_attachments :: "env \<Rightarrow> message \<Rightarrow> pyval \<Rightarrow> exn + pyval" where
  "prepped_attachments env m attachments =
     (let str_encoding = (if py_truthy (encoding m) then encoding m else DEFAULT_CHARSET env)
      in case py_iter attachments of
           Inl e \<Rightarrow> Inl e
         | Inr xs \<Rightarrow>
             (case list_comprehension (\<lambda>attachment. Attachment env attachment str_encoding) xs of
                Inl e \<Rightarrow> Inl e
              | Inr ys \<Rightarrow> Inr (PyList ys)))"

definition aware_datetime :: "env \<Rightarrow> pyval \<Rightarrow> exn + pyval" where
  "aware_datetime env value =
     (case
        (case value of
           PyDatetime dt \<Rightarrow> Inr (Some dt)
         | PyDate d \<Rightarrow>
             Inr (Some \<lparr>year = date_year d, month = date_month d, day = date_day d, hour = 0,
                        minute = 0, second = 0, microsecond = 0, tzinfo = None\<rparr>)
         | _ \<Rightarrow>
             (case utcfromtimestamp env value of
                Inl e \<Rightarrow>
                  (if isinstance_exn e ''TypeError'' \<or> isinstance_exn e ''ValueError''
                   then Inr None else Inl e)
              | Inr dt \<Rightarrow> Inr (Some (dt\<lparr>tzinfo := Some utc\<rparr>))))
      of
        Inl e \<Rightarrow> Inl e
      | Inr None \<Rightarrow> Inr value
      | Inr (Some dt) \<Rightarrow>
          (if is_naive dt then
             (case make_aware env dt (get_current_timezone env) of
                Inl e \<Rightarrow> Inl e
              | Inr dt' \<Rightarrow> Inr (PyDatetime dt'))
           else Inr (PyDatetime dt)))"

subsection \<open>The attribute tables\<close>

text \<open>A converter of the table is the name of a payload method or a callable.\<close>

datatype converter = Method string | Callable "pyval \<Rightarrow> exn + pyval"

type_synonym rule = "string \<times> combiner option \<times> converter option"

definition base_message_attrs :: "env \<Rightarrow> rule list" where
  "base_message_attrs env =
     [(''from_email'', Some Last, Some (Method ''parsed_email'')),
      (''to'', Some Combine, Some (Method ''parsed_emails'')),
      (''cc'', Some Combine, Some (Method ''parsed_emails'')),
      (''bcc'', Some Combine, Some (Method ''parsed_emails'')),
      (''subject'', Some Last, Some (Callable (force_non_lazy env))),
      (''reply_to'', Some Combine, Some (Method ''parsed_emails'')),
      (''extra_headers'', Some Combine, Some (Callable (force_non_lazy_dict env))),
      (''body'', Some Last, Some (Callable (force_non_lazy env))),
      (''alternatives'', Some Combine, Some (Method ''prepped_alternatives'')),
      (''attachments'', Some Combine, Some (Method ''prepped_attachments''))]"

definition anymail_message_attrs :: "env \<Rightarrow> rule list" where
  "anymail_message_attrs env =
     [(''metadata'', Some Combine, Some (Callable (force_non_lazy_dict env))),
      (''send_at'', Some Last, Some (Method ''aware_datetime'')),
      (''tags'', Some Combine, Some (Callable (force_non_lazy_list env))),
      (''track_clicks'', Some Last, None),
      (''track_opens'', Some Last, None),
      (''template_id'', Some Last, Some (Callable (force_non_lazy env))),
      (''merge_data'', Some Combine, Some (Callable (force_non_lazy_dict env))),
      (''merge_global_data'', Some Combine, Some (Callable (force_non_lazy_dict env))),
      (''esp_extra'', Some Combine, Some (Callable (force_non_lazy_dict env)))]"

subsection \<open>The payload class and its methods\<close>

text \<open>
  A payload class is a subclass of \<^verbatim>\<open>BasePayload\<close>, given by the methods it defines
  (\<open>None\<close> where it inherits). \<open>'p\<close> is the state of the payload object, which
  \<^verbatim>\<open>init_payload\<close> creates and the setters update.
\<close>

record 'p payload_class =
  payload_cls_name :: string
  esp_message_attrs :: "rule list"
  init_payload_impl :: "(message \<Rightarrow> (string \<Rightarrow> pyval) \<Rightarrow> exn + 'p) option"
  methods :: "string \<Rightarrow> (pyval \<Rightarrow> 'p \<Rightarrow> exn + 'p) option"
  converters :: "string \<Rightarrow> (pyval \<Rightarrow> exn + pyval) option"
  set_recipients_impl :: "(string \<Rightarrow> pyval \<Rightarrow> 'p \<Rightarrow> exn + 'p) option"
  add_recipient_impl :: "(string \<Rightarrow> pyval \<Rightarrow> 'p \<Rightarrow> exn + 'p) option"
  add_alternative_impl :: "(pyval \<Rightarrow> pyval \<Rightarrow> 'p \<Rightarrow> exn + 'p) option"

definition call_method ::
  "'p payload_class \<Rightarrow> string \<Rightarrow> (pyval \<Rightarrow> 'p \<Rightarrow> exn + 'p) \<Rightarrow> pyval \<Rightarrow> 'p \<Rightarrow> exn + 'p" where
  "call_method cls name inherited = (case methods cls name of Some f \<Rightarrow> f | None \<Rightarrow> inherited)"

definition unsupported_feature :: "('w, 'p) backend \<Rightarrow> string \<Rightarrow> string \<Rightarrow> 'p \<Rightarrow> exn + 'p" where
  "unsupported_feature b esp feature p =
     (if \<not> ignore_unsupported_features b then
        Inl (AnymailUnsupportedFeature (esp @ '' does not support '' @ feature))
      else Inr p)"

definition init_payload :: "'p payload_class \<Rightarrow> message \<Rightarrow> (string \<Rightarrow> pyval) \<Rightarrow> exn + 'p" where
  "init_payload cls m defaults =
     (case init_payload_impl cls of
        None \<Rightarrow> Inl (must_implement (payload_cls_name cls) ''init_payload'')
      | Some f \<Rightarrow> f m defaults)"

definition set_from_email :: "'p payload_class \<Rightarrow> pyval \<Rightarrow> 'p \<Rightarrow> exn + 'p" where
  "set_from_email cls email p = Inl (must_implement (payload_cls_name cls) ''set_from_email'')"

definition add_recipient :: "'p payload_class \<Rightarrow> string \<Rightarrow> pyval \<Rightarrow> 'p \<Rightarrow> exn + 'p" where
  "add_recipient cls recipient_type email p =
     Inl (must_implement (payload_cls_name cls)
            ''add_recipient, set_recipients, or set_{to,cc,bcc}'')"

definition set_recipients :: "'p payload_class \<Rightarrow> string \<Rightarrow> pyval \<Rightarrow> 'p \<Rightarrow> exn + 'p" where
  "set_recipients cls recipient_type emails p =
     (case py_iter emails of
        Inl e \<Rightarrow> Inl e
      | Inr xs \<Rightarrow>
          for_each
            (case add_recipient_impl cls of
               Some f \<Rightarrow> f recipient_type
             | None \<Rightarrow> add_recipient cls recipient_type) xs p)"

definition call_set_recipients :: "'p payload_class \<Rightarrow> string \<Rightarrow> pyval \<Rightarrow> 'p \<Rightarrow> exn + 'p" where
  "call_set_recipients cls =
     (case set_recipients_impl cls of Some f \<Rightarrow> f | None \<Rightarrow> set_recipients cls)"

definition set_to :: "'p payload_class \<Rightarrow> pyval \<Rightarrow> 'p \<Rightarrow> exn + 'p" where
  "set_to cls emails = call_set_recipients cls ''to'' emails"

definition set_cc :: "'p payload_class \<Rightarrow> pyval \<Rightarrow> 'p \<Rightarrow> exn + 'p" where
  "set_cc cls emails = call_set_recipients cls ''cc'' emails"

definition set_bcc :: "'p payload_class \<Rightarrow> pyval \<Rightarrow> 'p \<Rightarrow> exn + 'p" where
  "set_bcc cls emails = call_set_recipients cls ''bcc'' emails"

definition set_subject :: "'p payload_class \<Rightarrow> pyval \<Rightarrow> 'p \<Rightarrow> exn + 'p" where
  "set_subject cls subject p = Inl (must_implement (payload_cls_name cls) ''set_subject'')"

definition set_reply_to :: "('w, 'p) backend \<Rightarrow> string \<Rightarrow> pyval \<Rightarrow> 'p \<Rightarrow> exn + 'p" where
  "set_reply_to b esp emails = unsupported_feature b esp ''reply_to''"

definition set_extra_headers :: "('w, 'p) backend \<Rightarrow> string \<Rightarrow> pyval \<Rightarrow> 'p \<Rightarrow> exn + 'p" where
  "set_extra_headers b esp headers = unsupported_feature b esp ''extra_headers''"

definition set_text_body :: "'p payload_class \<Rightarrow> pyval \<Rightarrow> 'p \<Rightarrow> exn + 'p" where
  "set_text_body cls body p = Inl (must_implement (payload_cls_name cls) ''set_text_body'')"

definition set_html_body :: "'p payload_class \<Rightarrow> pyval \<Rightarrow> 'p \<Rightarrow> exn + 'p" where
  "set_html_body cls body p = Inl (must_implement (payload_cls_name cls) ''set_html_body'')"

definition add_alternative ::
  "('w, 'p) backend \<Rightarrow> string \<Rightarrow> pyval \<Rightarrow> pyval \<Rightarrow> 'p \<Rightarrow> exn + 'p" where
  "add_alternative b esp content mimetype =
     unsupported_feature b esp (''alternative part with type '' @ [CHR 0x27] @ py_str mimetype @ [CHR 0x27])"

definition set_alternatives ::
  "('w, 'p) backend \<Rightarrow> 'p payload_class \<Rightarrow> string \<Rightarrow> pyval \<Rightarrow> 'p \<Rightarrow> exn + 'p" where
  "set_alternatives b cls esp alternatives p =
     (case py_iter alternatives of
        Inl e \<Rightarrow> Inl e
      | Inr xs \<Rightarrow>
          for_each
            (\<lambda>alt p. case unpack2 alt of
                        Inl e \<Rightarrow> Inl e
                      | Inr (content, mimetype) \<Rightarrow>
                          (if mimetype = PyStr ''text/html'' then
                             call_method cls ''set_html_body'' (set_html_body cls) content p
                           else
                             (case add_alternative_impl cls of
                                Some f \<Rightarrow> f content mimetype p
                              | None \<Rightarrow> add_alternative b esp content mimetype p))) xs p)"

definition add_attachment :: "'p payload_class \<Rightarrow> pyval \<Rightarrow> 'p \<Rightarrow> exn + 'p" where
  "add_attachment cls attachment p =
     Inl (must_implement (payload_cls_name cls) ''add_attachment or set_attachments'')"

definition set_attachments :: "'p payload_class \<Rightarrow> pyval \<Rightarrow> 'p \<Rightarrow> exn + 'p" where
  "set_attachments cls attachments p =
     (case py_iter attachments of
        Inl e \<Rightarrow> Inl e
      | Inr xs \<Rightarrow> for_each (call_method cls ''add_attachment'' (add_attachment cls)) xs p)"

definition set_metadata :: "('w, 'p) backend \<Rightarrow> string \<Rightarrow> pyval \<Rightarrow> 'p \<Rightarrow> exn + 'p" where
  "set_metadata b esp metadata = unsupported_feature b esp ''metadata''"

definition set_send_at :: "('w, 'p) backend \<Rightarrow> string \<Rightarrow> pyval \<Rightarrow> 'p \<Rightarrow> exn + 'p" where
  "set_send_at b esp send_at = unsupported_feature b esp ''send_at''"

definition set_tags :: "('w, 'p) backend \<Rightarrow> string \<Rightarrow> pyval \<Rightarrow> 'p \<Rightarrow> exn + 'p" where
  "set_tags b esp tags = unsupported_feature b esp ''tags''"

definition set_track_clicks :: "('w, 'p) backend \<Rightarrow> string \<Rightarrow> pyval \<Rightarrow> 'p \<Rightarrow> exn + 'p" where
  "set_track_clicks b esp track_clicks = unsupported_feature b esp ''track_clicks''"

definition set_track_opens :: "('w, 'p) backend \<Rightarrow> string \<Rightarrow> pyval \<Rightarrow> 'p \<Rightarrow> exn + 'p" where
  "set_track_opens b esp track_opens = unsupported_feature b esp ''track_opens''"

definition set_template_id :: "('w, 'p) backend \<Rightarrow> string \<Rightarrow> pyval \<Rightarrow> 'p \<Rightarrow> exn + 'p" where
  "set_template_id b esp template_id = unsupported_feature b esp ''template_id''"

definition set_merge_data :: "('w, 'p) backend \<Rightarrow> string \<Rightarrow> pyval \<Rightarrow> 'p \<Rightarrow> exn + 'p" where
  "set_merge_data b esp merge_data = unsupported_feature b esp ''merge_data''"

definition set_merge_global_data :: "('w, 'p) backend \<Rightarrow> string \<Rightarrow> pyval \<Rightarrow> 'p \<Rightarrow> exn + 'p" where
  "set_merge_global_data b esp merge_global_data = unsupported_feature b esp ''merge_global_data''"

definition set_esp_extra :: "('w, 'p) backend \<Rightarrow> string \<Rightarrow> pyval \<Rightarrow> 'p \<Rightarrow> exn + 'p" where
  "set_esp_extra b esp extra = unsupported_feature b esp ''esp_extra''"

subsection \<open>Building the payload\<close>

text \<open>
  \<^verbatim>\<open>getattr(self, name)\<close> for a setter: the subclass's method if it defines one, else
  the method of \<^verbatim>\<open>BasePayload\<close>, else \<^verbatim>\<open>AttributeError\<close>.
\<close>

definition BasePayload_method ::
  "('w, 'p) backend \<Rightarrow> 'p payload_class \<Rightarrow> string \<Rightarrow> string \<Rightarrow> (pyval \<Rightarrow> 'p \<Rightarrow> exn + 'p) option" where
  "BasePayload_method b cls esp name =
     (if name = ''set_from_email'' then Some (set_from_email cls)
      else if name = ''set_to'' then Some (set_to cls)
      else if name = ''set_cc'' then Some (set_cc cls)
      else if name = ''set_bcc'' then Some (set_bcc cls)
      else if name = ''set_subject'' then Some (set_subject cls)
      else if name = ''set_reply_to'' then Some (set_reply_to b esp)
      else if name = ''set_extra_headers'' then Some (set_extra_headers b esp)
      else if name = ''set_text_body'' then Some (set_text_body cls)
      else if name = ''set_html_body'' then Some (set_html_body cls)
      else if name = ''set_alternatives'' then Some (set_alternatives b cls esp)
      else if name = ''set_attachments'' then Some (set_attachments cls)
      else if name = ''add_attachment'' then Some (add_attachment cls)
      else if name = ''set_metadata'' then Some (set_metadata b esp)
      else if name = ''set_send_at'' then Some (set_send_at b esp)
      else if name = ''set_tags'' then Some (set_tags b esp)
      else if name = ''set_track_clicks'' then Some (set_track_clicks b esp)
      else if name = ''set_track_opens'' then Some (set_track_opens b esp)
      else if name = ''set_template_id'' then Some (set_template_id b esp)
      else if name = ''set_merge_data'' then Some (set_merge_data b esp)
      else if name = ''set_merge_global_data'' then Some (set_merge_global_data b esp)
      else if name = ''set_esp_extra'' then Some (set_esp_extra b esp)
      else None)"

definition getattr_payload ::
  "('w, 'p) backend \<Rightarrow> 'p payload_class \<Rightarrow> string \<Rightarrow> string \<Rightarrow> exn + (pyval \<Rightarrow> 'p \<Rightarrow> exn + 'p)" where
  "getattr_payload b cls esp name =
     (case methods cls name of
        Some f \<Rightarrow> Inr f
      | None \<Rightarrow>
          (case BasePayload_method b cls esp name of
             Some f \<Rightarrow> Inr f
           | None \<Rightarrow> Inl (AttributeError (payload_cls_name cls @ '' has no attribute '' @ name))))"

definition getattr_converter ::
  "env \<Rightarrow> 'p payload_class \<Rightarrow> message \<Rightarrow> string \<Rightarrow> exn + (pyval \<Rightarrow> exn + pyval)" where
  "getattr_converter env cls m name =
     (case converters cls name of
        Some f \<Rightarrow> Inr f
      | None \<Rightarrow>
          (if name = ''parsed_email'' then Inr (parsed_email env m)
           else if name = ''parsed_emails'' then Inr (parsed_emails env m)
           else if name = ''prepped_alternatives'' then Inr (prepped_alternatives env)
           else if name = ''prepped_attachments'' then Inr (prepped_attachments env m)
           else if name = ''aware_datetime'' then Inr (aware_datetime env)
           else Inl (AttributeError (payload_cls_name cls @ '' has no attribute '' @ name))))"

fun apply_converter ::
  "env \<Rightarrow> 'p payload_class \<Rightarrow> message \<Rightarrow> converter \<Rightarrow> pyval \<Rightarrow> exn + pyval" where
  "apply_converter env cls m (Callable f) value = f value"
| "apply_converter env cls m (Method name) value =
     (case getattr_converter env cls m name of Inl e \<Rightarrow> Inl e | Inr f \<Rightarrow> f value)"

text \<open>
  One round of the loop of \<^verbatim>\<open>BasePayload.__init__\<close>, for one rule of the table, in
  three steps: the converter applied to a value (\<open>convert\<close>), the choice of the setter
  (\<open>find_setter\<close>: the body goes to the html or the text setter, any other attribute to
  the method \<^verbatim>\<open>set_<attr>\<close>), and the round itself. Next to the payload the round
  returns the calls \<^verbatim>\<open>setter(value)\<close> made so far: the name of the method and the value
  it received.
\<close>

definition convert ::
  "env \<Rightarrow> 'p payload_class \<Rightarrow> message \<Rightarrow> converter option \<Rightarrow> pyval \<Rightarrow> exn + pyval" where
  "convert env cls m converter value =
     (case converter of
        None \<Rightarrow> Inr value
      | Some c \<Rightarrow> apply_converter env cls m c value)"

definition find_setter ::
  "('w, 'p) backend \<Rightarrow> 'p payload_class \<Rightarrow> string \<Rightarrow> message \<Rightarrow> string
     \<Rightarrow> exn + (string \<times> (pyval \<Rightarrow> 'p \<Rightarrow> exn + 'p))" where
  "find_setter b cls esp m attr =
     (if attr = ''body'' then
        (if content_subtype m = ''html''
         then Inr (''set_html_body'', call_method cls ''set_html_body'' (set_html_body cls))
         else Inr (''set_text_body'', call_method cls ''set_text_body'' (set_text_body cls)))
      else
        (case getattr_payload b cls esp (''set_'' @ attr) of
           Inl e \<Rightarrow> Inl e
         | Inr f \<Rightarrow> Inr (''set_'' @ attr, f)))"

definition set_attr ::
  "env \<Rightarrow> ('w, 'p) backend \<Rightarrow> 'p payload_class \<Rightarrow> string \<Rightarrow> message \<Rightarrow> (string \<Rightarrow> pyval) \<Rightarrow> rule
     \<Rightarrow> 'p \<Rightarrow> (string \<times> pyval) list \<Rightarrow> (exn + 'p) \<times> (string \<times> pyval) list" where
  "set_attr env b cls esp m defaults rule p calls =
     (case rule of
        (attr, combiner, converter) \<Rightarrow>
          (case (case combiner of
                   None \<Rightarrow> Inr (getattr_message m attr)
                 | Some c \<Rightarrow> apply_combiner c (defaults attr) (getattr_message m attr)) of
             Inl e \<Rightarrow> (Inl e, calls)
           | Inr value \<Rightarrow>
               (case (if value \<noteq> UNSET then convert env cls m converter value
                      else Inr value) of
                  Inl e \<Rightarrow> (Inl e, calls)
                | Inr value \<Rightarrow>
                    (if value \<noteq> UNSET then
                       (case find_setter b cls esp m attr of
                          Inl e \<Rightarrow> (Inl e, calls)
                        | Inr (name, setter) \<Rightarrow> (setter value p, calls @ [(name, value)]))
                     else (Inr p, calls)))))"

fun set_attrs ::
  "env \<Rightarrow> ('w, 'p) backend \<Rightarrow> 'p payload_class \<Rightarrow> string \<Rightarrow> message \<Rightarrow> (string \<Rightarrow> pyval)
     \<Rightarrow> rule list \<Rightarrow> 'p \<Rightarrow> (string \<times> pyval) list \<Rightarrow> (exn + 'p) \<times> (string \<times> pyval) list" where
  "set_attrs env b cls esp m defaults [] p calls = (Inr p, calls)"
| "set_attrs env b cls esp m defaults (rule # rules) p calls =
     (case set_attr env b cls esp m defaults rule p calls of
        (Inl e, calls') \<Rightarrow> (Inl e, calls')
      | (Inr p', calls') \<Rightarrow> set_attrs env b cls esp m defaults rules p' calls')"

definition BasePayload_init ::
  "env \<Rightarrow> ('w, 'p) backend \<Rightarrow> 'p payload_class \<Rightarrow> message \<Rightarrow> (string \<Rightarrow> pyval)
     \<Rightarrow> (exn + 'p) \<times> (string \<times> pyval) list" where
  "BasePayload_init env b cls m defaults =
     (case get_esp_name b of
        Inl e \<Rightarrow> (Inl e, [])
      | Inr esp \<Rightarrow>
          (case init_payload cls m defaults of
             Inl e \<Rightarrow> (Inl e, [])
           | Inr p \<Rightarrow>
               set_attrs env b cls esp m defaults
                 (base_message_attrs env @ anymail_message_attrs env @ esp_message_attrs cls)
                 p []))"

text \<open>
  The \<^verbatim>\<open>build_message_payload\<close> of a concrete backend returns an instance of its
  payload class: \<^verbatim>\<open>return Payload(message, defaults, self)\<close>.
\<close>

definition with_payload_class ::
  "env \<Rightarrow> 'p payload_class \<Rightarrow> ('w, 'p) backend \<Rightarrow> ('w, 'p) backend" where
  "with_payload_class env cls b =
     b\<lparr>build_message_payload_impl :=
         Some (\<lambda>m defaults w. (fst (BasePayload_init env b cls m defaults), w))\<rparr>"

text \<open>The attributes whose setter in \<^verbatim>\<open>BasePayload\<close> does nothing but call
  \<^verbatim>\<open>unsupported_feature\<close> with the name of the attribute.\<close>

definition unsupported_by_default :: "string list" where
  "unsupported_by_default =
     [''reply_to'', ''extra_headers'', ''metadata'', ''send_at'', ''tags'', ''track_clicks'',
      ''track_opens'', ''template_id'', ''merge_data'', ''merge_global_data'', ''esp_extra'']"

section \<open>Observing the calls\<close>

text \<open>The calls logged between two states, and the calls a send may make.\<close>

definition new_events :: "'w state \<Rightarrow> 'w state \<Rightarrow> event list" where
  "new_events s s' = drop (length (log s)) (log s')"

definition logs_only :: "(event \<Rightarrow> bool) \<Rightarrow> 'w state \<Rightarrow> 'w state \<Rightarrow> bool" where
  "logs_only P s s' \<longleftrightarrow> (\<exists>es. log s' = log s @ es \<and> list_all P es)"

definition send_event :: "event \<Rightarrow> bool" where
  "send_event ev \<longleftrightarrow> ev \<noteq> EvOpen \<and> ev \<noteq> EvClose"

section \<open>A test provider\<close>

text \<open>
  A small provider in the manner of the test backends of the package, used to run the
  code on concrete messages: its payload is the list of the fields set so far, it
  implements the required setters and the one-recipient operation, and nothing else. The
  world counts the posts made. The provider rejects the address
  \<^verbatim>\<open>bad@example.com\<close> and fails to post a message whose subject is \<^verbatim>\<open>boom\<close>.
\<close>

definition test_utcfromtimestamp :: "pyval \<Rightarrow> exn + datetime" where
  "test_utcfromtimestamp v =
     (case v of
        PyInt i \<Rightarrow>
          (if 0 \<le> i \<and> i < 86400 then
             Inr \<lparr>year = 1970, month = 1, day = 1, hour = i div 3600,
                  minute = (i mod 3600) div 60, second = i mod 60, microsecond = 0,
                  tzinfo = None\<rparr>
           else Inl (ValueError ''timestamp outside the first day of 1970''))
      | _ \<Rightarrow> Inl (TypeError ''an integer is required''))"

definition test_env :: env where
  "test_env =
     \<lparr>ParsedEmail = (\<lambda>address enc. Inr address),
      Attachment = (\<lambda>attachment enc. Inr attachment),
      force_non_lazy = Inr,
      force_non_lazy_list = Inr,
      force_non_lazy_dict = Inr,
      DEFAULT_CHARSET = PyStr ''utf-8'',
      get_current_timezone = ''+02:00'',
      localize = (\<lambda>dt tz. Inr tz),
      utcfromtimestamp = test_utcfromtimestamp\<rparr>"

definition test_field :: "string \<Rightarrow> pyval \<Rightarrow> (string \<times> pyval) list \<Rightarrow> exn + (string \<times> pyval) list" where
  "test_field key v p = Inr (p @ [(key, v)])"

definition test_payload :: "(string \<times> pyval) list payload_class" where
  "test_payload =
     \<lparr>payload_cls_name = ''tests.TestPayload'',
      esp_message_attrs = [],
      init_payload_impl = Some (\<lambda>m defaults. Inr []),
      methods = (\<lambda>name.
        if name = ''set_from_email'' then Some (test_field ''from'')
        else if name = ''set_subject'' then Some (test_field ''subject'')
        else if name = ''set_text_body'' then Some (test_field ''text'')
        else if name = ''set_html_body'' then Some (test_field ''html'')
        else None),
      converters = (\<lambda>name. None),
      set_recipients_impl = None,
      add_recipient_impl = Some test_field,
      add_alternative_impl = None\<rparr>"

definition test_post ::
  "(string \<times> pyval) list \<Rightarrow> message \<Rightarrow> nat \<Rightarrow> (exn + pyval) \<times> nat" where
  "test_post payload m w =
     (if map_of payload ''subject'' = Some (PyStr ''boom'')
      then (Inl (Exn [''AnymailAPIError'', ''AnymailError''] ''HTTP 500''), w)
      else (Inr (PyStr ''accepted''), Suc w))"

definition test_parse ::
  "pyval \<Rightarrow> (string \<times> pyval) list \<Rightarrow> message \<Rightarrow> nat \<Rightarrow> (exn + (string \<times> string) list) \<times> nat" where
  "test_parse response payload m w =
     (Inr (map (\<lambda>a. (py_str a, if a = PyStr ''bad@example.com'' then ''rejected'' else ''sent''))
             (recipients m)), w)"

definition test_base :: "(nat, (string \<times> pyval) list) backend" where
  "test_base =
     \<lparr>cls_name = ''tests.TestBackend'',
      esp_name = Some ''Test'',
      fail_silently = False,
      ignore_unsupported_features = False,
      ignore_recipient_status = False,
      send_defaults = (\<lambda>attr. UNSET),
      open_impl = Some (\<lambda>w. (Inr True, w)),
      close_impl = Some (\<lambda>w. (Inr (), w)),
      build_message_payload_impl = None,
      post_to_esp_impl = Some test_post,
      parse_recipient_status_impl = Some test_parse\<rparr>"

definition test_backend :: "(nat, (string \<times> pyval) list) backend" where
  "test_backend = with_payload_class test_env test_payload test_base"

definition test_message :: "string list \<Rightarrow> string \<Rightarrow> message" where
  "test_message addresses subject =
     \<lparr>to = map PyStr addresses, cc = [], bcc = [], content_subtype = ''plain'',
      encoding = PyNone,
      other_attrs = (\<lambda>attr.
        if attr = ''from_email'' then PyStr ''from@example.com''
        else if attr = ''subject'' then PyStr subject
        else if attr = ''body'' then PyStr ''Hello''
        else UNSET),
      anymail_status = AnymailStatus\<rparr>"

definition no_receivers :: "nat signals" where
  "no_receivers = \<lparr>pre_send = [], post_send = []\<rparr>"

definition failing_receiver :: "string \<Rightarrow> string \<Rightarrow> message \<Rightarrow> nat \<Rightarrow> (exn + pyval) \<times> nat" where
  "failing_receiver what name m w = (Inl (ValueError what), w)"

definition counting_receiver :: "string \<Rightarrow> message \<Rightarrow> nat \<Rightarrow> (exn + pyval) \<times> nat" where
  "counting_receiver name m w = (Inr PyNone, w + 100)"

definition three_receivers :: "nat signals" where
  "three_receivers =
     \<lparr>pre_send = [],
      post_send = [failing_receiver ''first'', counting_receiver, failing_receiver ''third'']\<rparr>"

definition start :: "nat state" where
  "start = \<lparr>world = 0, log = []\<rparr>"

definition failing_batch :: "message list" where
  "failing_batch = [test_message [''a@example.com''] ''one'', test_message [''a@example.com''] ''boom'',
                    test_message [''a@example.com''] ''three'']"



definition refused_message :: message where
  "refused_message = test_message [''bad@example.com''] ''hi''"

definition refused_payload :: "(string \<times> pyval) list" where
  "refused_payload =
     [(''from'', PyStr ''from@example.com''), (''to'', PyStr ''bad@example.com''),
      (''subject'', PyStr ''hi''), (''text'', PyStr ''Hello'')]"

definition refused_result :: message where
  "refused_result =
     refused_message\<lparr>anymail_status :=
       \<lparr>status = {''rejected''}, per_recipient = [(''bad@example.com'', ''rejected'')],
        esp_response = Some (PyStr ''accepted'')\<rparr>\<rparr>"

definition parsed_state :: "nat state" where
  "parsed_state = \<lparr>world = 1, log = [EvBuildPayload, EvPostToEsp, EvParseRecipientStatus]\<rparr>"

definition silent_parser :: "(nat, (string \<times> pyval) list) backend" where
  "silent_parser = test_backend\<lparr>parse_recipient_status_impl := Some (\<lambda>response payload m w. (Inr [], w))\<rparr>"

definition bare_message :: message where
  "bare_message = (test_message [''a@example.com''] ''hi'')\<lparr>other_attrs := (\<lambda>attr. UNSET)\<rparr>"

definition default_subject :: "string \<Rightarrow> pyval" where
  "default_subject attr = (if attr = ''subject'' then PyStr ''Default'' else UNSET)"

definition tagged_message :: message where
  "tagged_message =
     (test_message [''a@example.com''] ''hi'')\<lparr>other_attrs :=
        (other_attrs (test_message [''a@example.com''] ''hi''))(''tags'' := PyList [PyStr ''x''])\<rparr>"

definition permissive_backend :: "(nat, (string \<times> pyval) list) backend" where
  "permissive_backend =
     with_payload_class test_env test_payload (test_base\<lparr>ignore_unsupported_features := True\<rparr>)"

section \<open>What the calls log\<close>

lemma logs_only_refl: "logs_only P s s"
  by (simp add: logs_only_def)

lemma logs_only_trans: "logs_only P s s' \<Longrightarrow> logs_only P s' s'' \<Longrightarrow> logs_only P s s''"
  by (auto simp: logs_only_def)

lemma logs_only_called: "P ev \<Longrightarrow> logs_only P s (called ev w s)"
  by (simp add: logs_only_def called_def)

lemma logs_only_mono: "logs_only P s s' \<Longrightarrow> (\<And>e. P e \<Longrightarrow> Q e) \<Longrightarrow> logs_only Q s s'"
  by (auto simp: logs_only_def list_all_iff)

lemma signal_send_log:
  "signal_send rs i name m s = (r, m', s') \<Longrightarrow> logs_only (\<lambda>ev. \<exists>k. ev = EvPreSend k) s s'"
proof (induction rs arbitrary: i m s)
  case Nil
  then show ?case by (simp add: logs_only_refl)
next
  case (Cons f rs)
  obtain o1 m1 w1 where f: "f name m (world s) = (o1, m1, w1)"
    by (cases "f name m (world s)") auto
  have step: "logs_only (\<lambda>ev. \<exists>k. ev = EvPreSend k) s (called (EvPreSend i) w1 s)"
    by (rule logs_only_called) blast
  show ?case
  proof (cases o1)
    case (Inl e)
    with Cons.prems f have "s' = called (EvPreSend i) w1 s" by simp
    with step show ?thesis by simp
  next
    case (Inr u)
    with Cons.prems f
    have "signal_send rs (Suc i) name m1 (called (EvPreSend i) w1 s) = (r, m', s')" by simp
    from Cons.IH [OF this] step show ?thesis by (blast intro: logs_only_trans)
  qed
qed

lemma run_pre_send_log:
  "run_pre_send sg b m s = (r, m', s') \<Longrightarrow> logs_only (\<lambda>ev. \<exists>k. ev = EvPreSend k) s s'"
  by (auto simp: run_pre_send_def logs_only_refl split: sum.splits prod.splits if_splits
      dest: signal_send_log)

lemma send_robust_log:
  "send_robust rs i name m s = (res, s') \<Longrightarrow>
     log s' = log s @ map EvPostSend [i..<i + length rs] \<and> length res = length rs"
proof (induction rs arbitrary: i s res s')
  case Nil
  then show ?case by simp
next
  case (Cons f rs)
  obtain o1 w1 where f: "f name m (world s) = (o1, w1)"
    by (cases "f name m (world s)") auto
  obtain res1 s1 where rest: "send_robust rs (Suc i) name m (called (EvPostSend i) w1 s) = (res1, s1)"
    by (cases "send_robust rs (Suc i) name m (called (EvPostSend i) w1 s)") auto
  from Cons.prems f rest have eq: "res = o1 # res1" "s' = s1" by simp_all
  from Cons.IH [OF rest]
  have a: "log s1 = log (called (EvPostSend i) w1 s) @ map EvPostSend [Suc i..<Suc i + length rs]"
    and l: "length res1 = length rs"
    by blast+
  have b: "[i..<i + length (f # rs)] = i # [Suc i..<Suc i + length rs]"
    by (subst upt_rec) simp
  show ?case
    unfolding b using a l eq by (simp add: called_def)
qed


lemma run_post_send_log:
  "run_post_send sg b m s = (r, s') \<Longrightarrow> logs_only (\<lambda>ev. \<exists>k. ev = EvPostSend k) s s'"
  by (auto simp: run_post_send_def logs_only_def list_all_iff
      split: sum.splits prod.splits dest!: send_robust_log)

lemma build_message_payload_log:
  "build_message_payload b m d s = (r, s') \<Longrightarrow> log s' = log s @ [EvBuildPayload]"
  by (auto simp: build_message_payload_def called_def split: option.splits prod.splits)

lemma post_to_esp_log:
  "post_to_esp b p m s = (r, s') \<Longrightarrow> log s' = log s @ [EvPostToEsp]"
  by (auto simp: post_to_esp_def called_def split: option.splits prod.splits)

lemma parse_recipient_status_log:
  "parse_recipient_status b resp p m s = (r, s') \<Longrightarrow> log s' = log s @ [EvParseRecipientStatus]"
  by (auto simp: parse_recipient_status_def called_def split: option.splits prod.splits)

lemma logs_only_single: "log s' = log s @ [ev] \<Longrightarrow> P ev \<Longrightarrow> logs_only P s s'"
  by (simp add: logs_only_def)

lemma send_message_log:
  assumes "send_message sg b m s = (r, m', s')"
  shows "logs_only send_event s s'"
proof -
  obtain r1 m1 s1 where pre: "run_pre_send sg b (m\<lparr>anymail_status := AnymailStatus\<rparr>) s = (r1, m1, s1)"
    by (metis prod_cases3)
  have l1: "logs_only send_event s s1"
    by (rule logs_only_mono [OF run_pre_send_log [OF pre]]) (auto simp: send_event_def)
  show ?thesis
  proof (cases "r1 = Inr True \<and> recipients m1 \<noteq> []")
    case False
    with assms pre have "s' = s1"
      by (auto simp: send_message_def split: sum.splits bool.splits)
    with l1 show ?thesis by simp
  next
    case go: True
    obtain r2 s2 where build: "build_message_payload b m1 (send_defaults b) s1 = (r2, s2)"
      by (cases "build_message_payload b m1 (send_defaults b) s1") auto
    have l2: "logs_only send_event s s2"
      by (rule logs_only_trans [OF l1])
        (rule logs_only_single [OF build_message_payload_log [OF build]], simp add: send_event_def)
    show ?thesis
    proof (cases r2)
      case (Inl e)
      with assms pre go build have "s' = s2" by (simp add: send_message_def)
      with l2 show ?thesis by simp
    next
      case payload: (Inr payload)
      obtain r3 s3 where post: "post_to_esp b payload m1 s2 = (r3, s3)"
        by (cases "post_to_esp b payload m1 s2") auto
      have l3: "logs_only send_event s s3"
        by (rule logs_only_trans [OF l2])
          (rule logs_only_single [OF post_to_esp_log [OF post]], simp add: send_event_def)
      show ?thesis
      proof (cases r3)
        case (Inl e)
        with assms pre go build payload post have "s' = s3" by (simp add: send_message_def)
        with l3 show ?thesis by simp
      next
        case response: (Inr response)
        define m2 where "m2 = m1\<lparr>anymail_status := (anymail_status m1)\<lparr>esp_response := Some response\<rparr>\<rparr>"
        obtain r4 s4 where parse: "parse_recipient_status b response payload m2 s3 = (r4, s4)"
          by (cases "parse_recipient_status b response payload m2 s3") auto
        have l4: "logs_only send_event s s4"
          by (rule logs_only_trans [OF l3])
            (rule logs_only_single [OF parse_recipient_status_log [OF parse]], simp add: send_event_def)
        show ?thesis
        proof (cases r4)
          case (Inl e)
          with assms pre go build payload post response parse have "s' = s4"
            by (simp add: send_message_def m2_def)
          with l4 show ?thesis by simp
        next
          case rs: (Inr rs)
          define m3 where "m3 = m2\<lparr>anymail_status := set_recipient_status (anymail_status m2) rs\<rparr>"
          obtain r5 s5 where ps: "run_post_send sg b m3 s4 = (r5, s5)"
            by (cases "run_post_send sg b m3 s4") auto
          have l5: "logs_only send_event s s5"
            by (rule logs_only_trans [OF l4])
              (rule logs_only_mono [OF run_post_send_log [OF ps]], auto simp: send_event_def)
          from assms pre go build payload post response parse rs ps have "s' = s5"
            by (auto simp: send_message_def m2_def m3_def Let_def split: sum.splits)
          with l5 show ?thesis by simp
        qed
      qed
    qed
  qed
qed

lemma send_loop_log:
  "send_loop sg b msgs n s = (r, ms, s') \<Longrightarrow> logs_only send_event s s'"
proof (induction msgs arbitrary: n s r ms s')
  case Nil
  then show ?case by (simp add: logs_only_refl)
next
  case (Cons m msgs)
  obtain r1 m1 s1 where one: "send_message sg b m s = (r1, m1, s1)"
    by (metis prod_cases3)
  note l1 = send_message_log [OF one]
  show ?case
  proof (cases "\<exists>e. r1 = Inl e \<and> \<not> (isinstance_exn e ''AnymailError'' \<and> fail_silently b)")
    case True
    with Cons.prems one have "s' = s1" by (auto split: if_splits)
    with l1 show ?thesis by simp
  next
    case False
    then obtain n' where "\<exists>r' ms'. send_loop sg b msgs n' s1 = (r', ms', s')"
      using Cons.prems one by (cases r1) (auto split: if_splits prod.splits)
    then obtain r' ms' where "send_loop sg b msgs n' s1 = (r', ms', s')" by blast
    from Cons.IH [OF this] l1 show ?thesis by (blast intro: logs_only_trans)
  qed
qed


lemma send_event_count:
  "list_all send_event es \<Longrightarrow> count_list es EvClose = 0 \<and> count_list es EvOpen = 0"
  by (induction es) (auto simp: send_event_def)

lemma open_session_log: "open_session b s = (r, s') \<Longrightarrow> log s' = log s @ [EvOpen]"
  by (auto simp: open_session_def called_def split: option.splits prod.splits)

lemma close_session_log: "close_session b s = (r, s') \<Longrightarrow> log s' = log s @ [EvClose]"
  by (auto simp: close_session_def called_def split: option.splits prod.splits)

lemma count_list_append: "count_list (xs @ ys) x = count_list xs x + count_list ys x"
  by (induction xs) auto


section \<open>Running the test provider\<close>

lemmas backend_defs =
  send_messages_def send_message_def run_pre_send_def run_post_send_def get_esp_name_def
  open_session_def close_session_def build_message_payload_def post_to_esp_def
  parse_recipient_status_def raise_for_recipient_status_def called_def
  set_recipient_status_def dict_update_def AnymailStatus_def recipients_def isinstance_exn_def
  AnymailRecipientsRefused_def new_events_def

lemmas payload_defs =
  BasePayload_init_def init_payload_def base_message_attrs_def anymail_message_attrs_def
  set_attr_def convert_def find_setter_def getattr_payload_def BasePayload_method_def
  getattr_converter_def getattr_message_def last_value_def combine_def call_method_def
  parsed_email_def parsed_emails_def prepped_alternatives_def prepped_attachments_def
  set_to_def set_cc_def set_bcc_def call_set_recipients_def set_recipients_def
  unsupported_feature_def set_tags_def AnymailUnsupportedFeature_def

lemmas test_defs =
  test_backend_def test_base_def test_payload_def test_env_def test_field_def test_post_def
  test_parse_def test_message_def no_receivers_def three_receivers_def failing_receiver_def
  counting_receiver_def start_def with_payload_class_def



section \<open>The batch sender\<close>

text \<open>
  Claim C2. A call of \<^verbatim>\<open>send_messages\<close> calls \<^verbatim>\<open>close()\<close> exactly once if the batch
  is not empty and its own call of \<^verbatim>\<open>open()\<close> returned \<^verbatim>\<open>True\<close>, and never otherwise;
  this holds whatever the loop returns or raises, and the call of \<^verbatim>\<open>close()\<close> is then the
  last call made.
\<close>

theorem close_iff_session_created:
  assumes "send_messages sg b msgs s = (r, ms, s')"
  shows "count_list (new_events s s') EvClose
           = (if msgs \<noteq> [] \<and> fst (open_session b s) = Inr True then 1 else 0)
         \<and> (msgs \<noteq> [] \<and> fst (open_session b s) = Inr True \<longrightarrow> last (new_events s s') = EvClose)"
proof (cases "msgs = []")
  case True
  with assms show ?thesis by (simp add: send_messages_def new_events_def)
next
  case ne: False
  obtain r1 s1 where op: "open_session b s = (r1, s1)"
    by (cases "open_session b s") auto
  note l1 = open_session_log [OF op]
  show ?thesis
  proof (cases r1)
    case (Inl e)
    with assms ne op have "s' = s1" by (simp add: send_messages_def)
    with l1 Inl op show ?thesis by (simp add: new_events_def)
  next
    case created: (Inr created)
    obtain r2 ms2 s2 where loop: "send_loop sg b msgs 0 s1 = (r2, ms2, s2)"
      by (metis prod_cases3)
    from send_loop_log [OF loop] obtain es
      where es: "log s2 = log s1 @ es" "list_all send_event es"
      by (auto simp: logs_only_def)
    note c = send_event_count [OF es(2)]
    show ?thesis
    proof (cases created)
      case False
      with assms ne op created loop have "s' = s2" by (simp add: send_messages_def)
      with l1 es c op created False ne show ?thesis
        by (simp add: new_events_def count_list_append)
    next
      case True
      obtain r3 s3 where cl: "close_session b s2 = (r3, s3)"
        by (cases "close_session b s2") auto
      from assms ne op created loop True cl have "s' = s3"
        by (auto simp: send_messages_def split: sum.splits)
      with close_session_log [OF cl] l1 es c op created True ne show ?thesis
        by (simp add: new_events_def count_list_append)
    qed
  qed
qed

theorem close_iff_session_created_witness:
  "fst (send_messages no_receivers test_backend failing_batch start)
     = Inl (Exn [''AnymailAPIError'', ''AnymailError''] ''HTTP 500'')
   \<and> failing_batch \<noteq> [] \<and> fst (open_session test_backend start) = Inr True
   \<and> count_list (new_events start (snd (snd (send_messages no_receivers test_backend failing_batch start)))) EvClose = 1
   \<and> last (new_events start (snd (snd (send_messages no_receivers test_backend failing_batch start)))) = EvClose"
proof -
  have run: "send_messages no_receivers test_backend failing_batch start =
      (fst (send_messages no_receivers test_backend failing_batch start),
       fst (snd (send_messages no_receivers test_backend failing_batch start)),
       snd (snd (send_messages no_receivers test_backend failing_batch start)))"
    by simp
  have created: "failing_batch \<noteq> [] \<and> fst (open_session test_backend start) = Inr True"
    by (simp add: failing_batch_def open_session_def test_defs)
  have raised: "fst (send_messages no_receivers test_backend failing_batch start)
     = Inl (Exn [''AnymailAPIError'', ''AnymailError''] ''HTTP 500'')"
    by (simp add: failing_batch_def backend_defs test_defs payload_defs)
  from close_iff_session_created [OF run] created raised show ?thesis
    by simp
qed



section \<open>The send of one message\<close>

text \<open>
  Claim C4. When the pre-send hook lets the message through and the message has no
  recipients, \<^verbatim>\<open>_send\<close> returns \<^verbatim>\<open>False\<close>, raises nothing, and has called neither
  \<^verbatim>\<open>build_message_payload\<close> nor \<^verbatim>\<open>post_to_esp\<close>.
\<close>

theorem no_recipients_not_sent:
  assumes pre: "run_pre_send sg b (m\<lparr>anymail_status := AnymailStatus\<rparr>) s = (Inr True, m1, s1)"
    and none: "recipients m1 = []"
  shows "send_message sg b m s = (Inr False, m1, s1)
         \<and> EvBuildPayload \<notin> set (new_events s s1) \<and> EvPostToEsp \<notin> set (new_events s s1)"
proof -
  from run_pre_send_log [OF pre] obtain es
    where es: "log s1 = log s @ es" "list_all (\<lambda>ev. \<exists>k. ev = EvPreSend k) es"
    by (auto simp: logs_only_def)
  then have "EvBuildPayload \<notin> set es \<and> EvPostToEsp \<notin> set es"
    by (auto simp: list_all_iff)
  with es(1) pre none show ?thesis
    by (simp add: send_message_def new_events_def)
qed

theorem no_recipients_not_sent_witness:
  "run_pre_send no_receivers test_backend ((test_message [] ''hi'')\<lparr>anymail_status := AnymailStatus\<rparr>) start
     = (Inr True, test_message [] ''hi'', start)
   \<and> recipients (test_message [] ''hi'') = []
   \<and> send_message no_receivers test_backend (test_message [] ''hi'') start
       = (Inr False, test_message [] ''hi'', start)
   \<and> EvBuildPayload \<notin> set (new_events start start) \<and> EvPostToEsp \<notin> set (new_events start start)"
proof -
  have pre: "run_pre_send no_receivers test_backend
               ((test_message [] ''hi'')\<lparr>anymail_status := AnymailStatus\<rparr>) start
             = (Inr True, test_message [] ''hi'', start)"
    by (simp add: backend_defs test_defs)
  have none: "recipients (test_message [] ''hi'') = []"
    by (simp add: recipients_def test_message_def)
  from no_recipients_not_sent [OF pre none] pre none show ?thesis
    by simp
qed

lemma raise_first_Inr: "raise_first results = Inr u \<longleftrightarrow> (\<forall>e. Inl e \<notin> set results)"
  by (induction results rule: raise_first.induct) auto

lemma raise_first_Inl: "raise_first results = Inl e \<Longrightarrow> Inl e \<in> set results"
  by (induction results rule: raise_first.induct) auto

lemma refused_pre:
  "run_pre_send sg (test_backend\<lparr>ignore_recipient_status := i\<rparr>)
     (refused_message\<lparr>anymail_status := AnymailStatus\<rparr>) start
   = (if pre_send sg = [] then (Inr True, refused_message, start)
      else run_pre_send sg test_backend refused_message start)"
  by (simp add: refused_message_def backend_defs test_defs)

lemma refused_some: "recipients refused_message \<noteq> []"
  by (simp add: refused_message_def recipients_def test_message_def)

lemma refused_build:
  "build_message_payload (test_backend\<lparr>ignore_recipient_status := i\<rparr>) refused_message
     (send_defaults (test_backend\<lparr>ignore_recipient_status := i\<rparr>)) start
   = (Inr refused_payload, \<lparr>world = 0, log = [EvBuildPayload]\<rparr>)"
  by (simp add: refused_message_def refused_payload_def backend_defs test_defs payload_defs)

lemma refused_post:
  "post_to_esp (test_backend\<lparr>ignore_recipient_status := i\<rparr>) refused_payload refused_message
     \<lparr>world = 0, log = [EvBuildPayload]\<rparr>
   = (Inr (PyStr ''accepted''), \<lparr>world = 1, log = [EvBuildPayload, EvPostToEsp]\<rparr>)"
  by (simp add: refused_message_def refused_payload_def backend_defs test_defs)

lemma refused_parse:
  "parse_recipient_status (test_backend\<lparr>ignore_recipient_status := i\<rparr>) (PyStr ''accepted'') refused_payload
     (refused_message\<lparr>anymail_status :=
        (anymail_status refused_message)\<lparr>esp_response := Some (PyStr ''accepted'')\<rparr>\<rparr>)
     \<lparr>world = 1, log = [EvBuildPayload, EvPostToEsp]\<rparr>
   = (Inr [(''bad@example.com'', ''rejected'')], parsed_state)"
  by (simp add: refused_message_def parsed_state_def backend_defs test_defs)

lemma refused_m3:
  "refused_result = refused_message\<lparr>anymail_status :=
       set_recipient_status ((anymail_status refused_message)\<lparr>esp_response := Some (PyStr ''accepted'')\<rparr>)
         [(''bad@example.com'', ''rejected'')]\<rparr>"
  by (simp add: refused_result_def refused_message_def backend_defs test_defs)

text \<open>
  Claim C1, as amended. When the send of a message has reached the parsed status, every
  per-recipient status is \<^verbatim>\<open>invalid\<close> or \<^verbatim>\<open>rejected\<close>, and no post-send receiver
  has answered with an exception, then \<^verbatim>\<open>_send\<close> raises
  \<^verbatim>\<open>AnymailRecipientsRefused\<close> if the setting \<^verbatim>\<open>ignore_recipient_status\<close> is unset, and
  returns \<^verbatim>\<open>True\<close> if it is set; in both cases the message carries the aggregate
  status and the provider's response.
\<close>

theorem all_refused_raises_unless_ignored:
  assumes pre: "run_pre_send sg b (m\<lparr>anymail_status := AnymailStatus\<rparr>) s = (Inr True, m1, s1)"
    and some: "recipients m1 \<noteq> []"
    and build: "build_message_payload b m1 (send_defaults b) s1 = (Inr payload, s2)"
    and post: "post_to_esp b payload m1 s2 = (Inr response, s3)"
    and parse: "parse_recipient_status b response payload
                  (m1\<lparr>anymail_status := (anymail_status m1)\<lparr>esp_response := Some response\<rparr>\<rparr>) s3
                = (Inr recipient_status, s4)"
    and m3: "m3 = m1\<lparr>anymail_status :=
                     set_recipient_status ((anymail_status m1)\<lparr>esp_response := Some response\<rparr>)
                       recipient_status\<rparr>"
    and refused: "status (anymail_status m3) \<subseteq> {''invalid'', ''rejected''}"
    and observers: "run_post_send sg b m3 s4 = (Inr u, s5)"
  shows "send_message sg b m s =
           (if ignore_recipient_status b then (Inr True, m3, s5)
            else (Inl AnymailRecipientsRefused, m3, s5))
         \<and> esp_response (anymail_status m3) = Some response"
proof -
  have "esp_response (anymail_status m3) = Some response"
    by (simp add: m3 set_recipient_status_def Let_def)
  moreover have "send_message sg b m s =
           (if ignore_recipient_status b then (Inr True, m3, s5)
            else (Inl AnymailRecipientsRefused, m3, s5))"
    using pre some build post parse refused observers unfolding m3
    by (simp add: send_message_def raise_for_recipient_status_def Let_def)
  ultimately show ?thesis by simp
qed

theorem all_refused_raises_unless_ignored_witness:
  "status (anymail_status refused_result) \<subseteq> {''invalid'', ''rejected''}
   \<and> send_message no_receivers test_backend refused_message start
       = (Inl AnymailRecipientsRefused, refused_result, parsed_state)
   \<and> send_message no_receivers (test_backend\<lparr>ignore_recipient_status := True\<rparr>) refused_message start
       = (Inr True, refused_result, parsed_state)"
proof -
  have refused: "status (anymail_status refused_result) \<subseteq> {''invalid'', ''rejected''}"
    by (simp add: refused_result_def)
  have pre: "run_pre_send no_receivers (test_backend\<lparr>ignore_recipient_status := i\<rparr>)
               (refused_message\<lparr>anymail_status := AnymailStatus\<rparr>) start
             = (Inr True, refused_message, start)" for i
    by (simp add: refused_pre) (simp add: no_receivers_def)
  have observers: "run_post_send no_receivers (test_backend\<lparr>ignore_recipient_status := i\<rparr>)
                     refused_result parsed_state = (Inr (), parsed_state)" for i
    by (simp add: backend_defs test_defs)
  from all_refused_raises_unless_ignored
         [OF pre refused_some refused_build refused_post refused_parse refused_m3 refused observers,
          of False]
  have "send_message no_receivers test_backend refused_message start
       = (Inl AnymailRecipientsRefused, refused_result, parsed_state)"
    by (simp add: test_defs)
  moreover
  from all_refused_raises_unless_ignored
         [OF pre refused_some refused_build refused_post refused_parse refused_m3 refused observers,
          of True]
  have "send_message no_receivers (test_backend\<lparr>ignore_recipient_status := True\<rparr>) refused_message start
       = (Inr True, refused_result, parsed_state)"
    by simp
  ultimately show ?thesis using refused by simp
qed

text \<open>
  The claim C1 as first stated has no condition on the post-send receivers. It fails for
  a message whose only recipient is rejected when a receiver raises: \<^verbatim>\<open>_send\<close> raises
  the receiver's error, not \<^verbatim>\<open>AnymailRecipientsRefused\<close>, and with the setting set it
  does not return \<^verbatim>\<open>True\<close>.
\<close>

theorem all_refused_counterexample:
  "status (anymail_status (fst (snd
      (send_message three_receivers test_backend (test_message [''bad@example.com''] ''hi'') start))))
     = {''rejected''}
   \<and> \<not> ignore_recipient_status test_backend
   \<and> fst (send_message three_receivers test_backend (test_message [''bad@example.com''] ''hi'') start)
       = Inl (ValueError ''first'')
   \<and> ValueError ''first'' \<noteq> AnymailRecipientsRefused
   \<and> fst (send_message three_receivers (test_backend\<lparr>ignore_recipient_status := True\<rparr>)
             (test_message [''bad@example.com''] ''hi'') start)
       \<noteq> Inr True"
  by (simp add: backend_defs test_defs payload_defs ValueError_def)

text \<open>
  Claim C8. In \<^verbatim>\<open>_send\<close> the post-send signal is sent before the check for refused
  recipients: every receiver is called, in order, whether or not an earlier one raised;
  if a receiver's response is an exception, \<^verbatim>\<open>_send\<close> raises the first such exception
  (also when all recipients were refused), and only otherwise does the check run.
\<close>

theorem post_send_runs_every_observer_before_refusal:
  assumes pre: "run_pre_send sg b (m\<lparr>anymail_status := AnymailStatus\<rparr>) s = (Inr True, m1, s1)"
    and some: "recipients m1 \<noteq> []"
    and build: "build_message_payload b m1 (send_defaults b) s1 = (Inr payload, s2)"
    and post: "post_to_esp b payload m1 s2 = (Inr response, s3)"
    and parse: "parse_recipient_status b response payload
                  (m1\<lparr>anymail_status := (anymail_status m1)\<lparr>esp_response := Some response\<rparr>\<rparr>) s3
                = (Inr recipient_status, s4)"
    and m3: "m3 = m1\<lparr>anymail_status :=
                     set_recipient_status ((anymail_status m1)\<lparr>esp_response := Some response\<rparr>)
                       recipient_status\<rparr>"
    and name: "esp_name b = Some name"
    and robust: "send_robust (post_send sg) 0 name m3 s4 = (results, s5)"
  shows "length results = length (post_send sg)
         \<and> new_events s4 s5 = map EvPostSend [0..<length (post_send sg)]
         \<and> send_message sg b m s =
             (case raise_first results of
                Inl e \<Rightarrow> (Inl e, m3, s5)
              | Inr u \<Rightarrow>
                  (case raise_for_recipient_status b (anymail_status m3) response payload m3 of
                     Inl e \<Rightarrow> (Inl e, m3, s5)
                   | Inr u \<Rightarrow> (Inr True, m3, s5)))
         \<and> ((\<exists>e. Inl e \<in> set results) \<longrightarrow>
              (\<exists>e. Inl e \<in> set results \<and> fst (send_message sg b m s) = Inl e))"
proof -
  from send_robust_log [OF robust]
  have len: "length results = length (post_send sg)"
    and events: "new_events s4 s5 = map EvPostSend [0..<length (post_send sg)]"
    by (simp_all add: new_events_def)
  have run: "run_post_send sg b m3 s4 = (raise_first results, s5)"
    using name robust by (simp add: run_post_send_def get_esp_name_def)
  have send: "send_message sg b m s =
             (case raise_first results of
                Inl e \<Rightarrow> (Inl e, m3, s5)
              | Inr u \<Rightarrow>
                  (case raise_for_recipient_status b (anymail_status m3) response payload m3 of
                     Inl e \<Rightarrow> (Inl e, m3, s5)
                   | Inr u \<Rightarrow> (Inr True, m3, s5)))"
    using pre some build post parse run unfolding m3
    by (simp add: send_message_def Let_def split: sum.splits)
  have "\<exists>e. Inl e \<in> set results \<and> fst (send_message sg b m s) = Inl e"
    if "\<exists>e. Inl e \<in> set results"
  proof (cases "raise_first results")
    case (Inl e)
    with send raise_first_Inl [OF Inl] show ?thesis by auto
  next
    case (Inr u)
    with that show ?thesis by (simp add: raise_first_Inr)
  qed
  with len events send show ?thesis by blast
qed

theorem post_send_runs_every_observer_before_refusal_witness:
  "send_robust (post_send three_receivers) 0 ''Test'' refused_result parsed_state
     = ([Inl (ValueError ''first''), Inr PyNone, Inl (ValueError ''third'')],
        \<lparr>world = 101, log = [EvBuildPayload, EvPostToEsp, EvParseRecipientStatus,
                              EvPostSend 0, EvPostSend 1, EvPostSend 2]\<rparr>)
   \<and> new_events parsed_state
        \<lparr>world = 101, log = [EvBuildPayload, EvPostToEsp, EvParseRecipientStatus,
                              EvPostSend 0, EvPostSend 1, EvPostSend 2]\<rparr>
       = [EvPostSend 0, EvPostSend 1, EvPostSend 2]
   \<and> send_message three_receivers test_backend refused_message start
       = (Inl (ValueError ''first''), refused_result,
          \<lparr>world = 101, log = [EvBuildPayload, EvPostToEsp, EvParseRecipientStatus,
                              EvPostSend 0, EvPostSend 1, EvPostSend 2]\<rparr>)"
proof -
  let ?s5 = "\<lparr>world = 101::nat, log = [EvBuildPayload, EvPostToEsp, EvParseRecipientStatus,
                              EvPostSend 0, EvPostSend 1, EvPostSend 2]\<rparr>"
  have pre: "run_pre_send three_receivers test_backend
               (refused_message\<lparr>anymail_status := AnymailStatus\<rparr>) start
             = (Inr True, refused_message, start)"
    by (simp add: refused_message_def three_receivers_def backend_defs test_defs)
  have name: "esp_name test_backend = Some ''Test''"
    by (simp add: test_defs)
  have robust: "send_robust (post_send three_receivers) 0 ''Test'' refused_result parsed_state
     = ([Inl (ValueError ''first''), Inr PyNone, Inl (ValueError ''third'')], ?s5)"
    by (simp add: three_receivers_def failing_receiver_def counting_receiver_def parsed_state_def
        called_def)
  have same: "test_backend\<lparr>ignore_recipient_status := False\<rparr> = test_backend"
    by (simp add: test_defs)
  from post_send_runs_every_observer_before_refusal
         [OF pre refused_some refused_build [of False, unfolded same]
             refused_post [of False, unfolded same] refused_parse [of False, unfolded same]
             refused_m3 name robust]
  have "new_events parsed_state ?s5 = map EvPostSend [0..<length (post_send three_receivers)]
     \<and> send_message three_receivers test_backend refused_message start
       = (Inl (ValueError ''first''), refused_result, ?s5)"
    by simp
  with robust show ?thesis
    by (simp add: three_receivers_def upt_rec)
qed

text \<open>
  Claim C10. When the parser returns an empty status mapping for a fresh status object,
  the aggregate status is the empty set, and \<^verbatim>\<open>raise_for_recipient_status\<close> raises
  \<^verbatim>\<open>AnymailRecipientsRefused\<close> if the setting \<^verbatim>\<open>ignore_recipient_status\<close> is unset.
\<close>

theorem empty_status_mapping_is_refused:
  assumes "\<not> ignore_recipient_status b" and "per_recipient st = []"
  shows "status (set_recipient_status st []) = {}
         \<and> raise_for_recipient_status b (set_recipient_status st []) response payload m
             = Inl AnymailRecipientsRefused"
  using assms
  by (simp add: set_recipient_status_def dict_update_def raise_for_recipient_status_def)

theorem empty_status_mapping_is_refused_witness:
  "\<not> ignore_recipient_status silent_parser
   \<and> per_recipient (AnymailStatus\<lparr>esp_response := Some (PyStr ''accepted'')\<rparr>) = []
   \<and> raise_for_recipient_status silent_parser
        (set_recipient_status (AnymailStatus\<lparr>esp_response := Some (PyStr ''accepted'')\<rparr>) [])
        (PyStr ''accepted'') refused_payload refused_message
       = Inl AnymailRecipientsRefused
   \<and> fst (send_message no_receivers silent_parser (test_message [''a@example.com''] ''hi'') start)
       = Inl AnymailRecipientsRefused"
proof -
  have a: "\<not> ignore_recipient_status silent_parser"
    by (simp add: silent_parser_def test_defs)
  have b: "per_recipient (AnymailStatus\<lparr>esp_response := Some (PyStr ''accepted'')\<rparr>) = []"
    by (simp add: AnymailStatus_def)
  have c: "fst (send_message no_receivers silent_parser (test_message [''a@example.com''] ''hi'') start)
       = Inl AnymailRecipientsRefused"
    by (simp add: silent_parser_def backend_defs test_defs payload_defs)
  from empty_status_mapping_is_refused [OF a b] a b c show ?thesis
    by simp
qed

section \<open>The payload builder\<close>

lemma set_attr_Last:
  "set_attr env b cls esp m defaults (attr, Some Last, converter) p calls =
     (let value = (if getattr_message m attr \<noteq> UNSET then getattr_message m attr else defaults attr)
      in if value = UNSET then (Inr p, calls)
         else
           (case convert env cls m converter value of
              Inl e \<Rightarrow> (Inl e, calls)
            | Inr v \<Rightarrow>
                (if v = UNSET then (Inr p, calls)
                 else
                   (case find_setter b cls esp m attr of
                      Inl e \<Rightarrow> (Inl e, calls)
                    | Inr (name, setter) \<Rightarrow> (setter v p, calls @ [(name, v)])))))"
  by (simp add: set_attr_def last_value_def Let_def split: sum.splits prod.splits)

text \<open>
  Claim C5. For a rule of the table whose combiner is \<^verbatim>\<open>last\<close>: if the message has
  the attribute, the setter is called with the converted value of the message; if the
  message lacks it and the defaults have it, the setter is called with the converted
  default; if both lack it, no setter is called and the payload is unchanged. (The
  converted value is the one the converter returns; the setter is the one the payload
  object has for the attribute.)
\<close>

theorem override_rule:
  "(getattr_message m attr \<noteq> UNSET
      \<and> convert env cls m converter (getattr_message m attr) = Inr v \<and> v \<noteq> UNSET
      \<and> find_setter b cls esp m attr = Inr (name, setter)
    \<longrightarrow> set_attr env b cls esp m defaults (attr, Some Last, converter) p calls
          = (setter v p, calls @ [(name, v)]))
   \<and> (getattr_message m attr = UNSET \<and> defaults attr \<noteq> UNSET
      \<and> convert env cls m converter (defaults attr) = Inr v \<and> v \<noteq> UNSET
      \<and> find_setter b cls esp m attr = Inr (name, setter)
    \<longrightarrow> set_attr env b cls esp m defaults (attr, Some Last, converter) p calls
          = (setter v p, calls @ [(name, v)]))
   \<and> (getattr_message m attr = UNSET \<and> defaults attr = UNSET
    \<longrightarrow> set_attr env b cls esp m defaults (attr, Some Last, converter) p calls = (Inr p, calls))"
  by (simp add: set_attr_Last)

theorem override_rule_witness:
  "set_attr test_env test_base test_payload ''Test'' (test_message [''a@example.com''] ''hi'')
      default_subject (''subject'', Some Last, Some (Callable (force_non_lazy test_env))) [] []
     = (Inr [(''subject'', PyStr ''hi'')], [(''set_subject'', PyStr ''hi'')])
   \<and> set_attr test_env test_base test_payload ''Test'' bare_message
      default_subject (''subject'', Some Last, Some (Callable (force_non_lazy test_env))) [] []
     = (Inr [(''subject'', PyStr ''Default'')], [(''set_subject'', PyStr ''Default'')])
   \<and> set_attr test_env test_base test_payload ''Test'' bare_message
      default_subject (''send_at'', Some Last, Some (Method ''aware_datetime'')) [] []
     = (Inr [], [])"
proof -
  let ?conv = "Some (Callable (force_non_lazy test_env))"
  let ?m = "test_message [''a@example.com''] ''hi''"
  have setter: "find_setter test_base test_payload ''Test'' m ''subject''
                 = Inr (''set_subject'', test_field ''subject'')" for m
    by (simp add: find_setter_def getattr_payload_def test_payload_def)
  have present: "getattr_message ?m ''subject'' \<noteq> UNSET
     \<and> convert test_env test_payload ?m ?conv (getattr_message ?m ''subject'') = Inr (PyStr ''hi'')
     \<and> PyStr ''hi'' \<noteq> UNSET"
    by (simp add: getattr_message_def test_message_def convert_def test_env_def)
  have absent: "getattr_message bare_message ''subject'' = UNSET
     \<and> default_subject ''subject'' \<noteq> UNSET
     \<and> convert test_env test_payload bare_message ?conv (default_subject ''subject'')
         = Inr (PyStr ''Default'')
     \<and> PyStr ''Default'' \<noteq> UNSET"
    by (simp add: getattr_message_def bare_message_def test_message_def convert_def test_env_def
        default_subject_def)
  have neither: "getattr_message bare_message ''send_at'' = UNSET \<and> default_subject ''send_at'' = UNSET"
    by (simp add: getattr_message_def bare_message_def test_message_def default_subject_def)
  from override_rule [of ?m "''subject''" test_env test_payload ?conv "PyStr ''hi''" test_base
         "''Test''" "''set_subject''" "test_field ''subject''" default_subject "[]" "[]"]
       present setter
  have a: "set_attr test_env test_base test_payload ''Test'' ?m default_subject
             (''subject'', Some Last, ?conv) [] []
           = (Inr [(''subject'', PyStr ''hi'')], [(''set_subject'', PyStr ''hi'')])"
    by (simp add: test_field_def)
  from override_rule [of bare_message "''subject''" test_env test_payload ?conv "PyStr ''Default''"
         test_base "''Test''" "''set_subject''" "test_field ''subject''" default_subject "[]" "[]"]
       absent setter
  have b: "set_attr test_env test_base test_payload ''Test'' bare_message default_subject
             (''subject'', Some Last, ?conv) [] []
           = (Inr [(''subject'', PyStr ''Default'')], [(''set_subject'', PyStr ''Default'')])"
    by (simp add: test_field_def)
  from override_rule [of bare_message "''send_at''" test_env test_payload
         "Some (Method ''aware_datetime'')" _ test_base "''Test''" _ _ default_subject "[]" "[]"]
       neither
  have c: "set_attr test_env test_base test_payload ''Test'' bare_message default_subject
             (''send_at'', Some Last, Some (Method ''aware_datetime'')) [] []
           = (Inr [], [])"
    by simp
  from a b c show ?thesis by simp
qed

lemma map_of_fold_update:
  "map_of (fold (\<lambda>(k, x). AList.update k x) v d) = map_of d ++ map_of (rev v)"
proof (induction v arbitrary: d)
  case Nil
  show ?case by simp
next
  case (Cons kv v)
  obtain k x where kv: "kv = (k, x)" by (cases kv)
  have "map_of (fold (\<lambda>(k, x). AList.update k x) (kv # v) d)
        = (map_of d)(k \<mapsto> x) ++ map_of (rev v)"
    by (simp add: kv Cons.IH update_conv' fun_upd_def)
  also have "\<dots> = map_of d ++ map_of (rev (kv # v))"
    by (simp add: kv)
  finally show ?case .
qed

lemma map_of_rev_distinct: "distinct (map fst xs) \<Longrightarrow> map_of (rev xs) = map_of xs"
proof (induction xs)
  case Nil
  show ?case by simp
next
  case (Cons kv xs)
  obtain k x where kv: "kv = (k, x)" by (cases kv)
  from Cons.prems kv have fresh: "map_of xs k = None"
    by (simp add: map_of_eq_None_iff)
  from Cons have "map_of (rev xs) = map_of xs" by simp
  then have "map_of (rev (kv # xs)) = [k \<mapsto> x] ++ map_of xs"
    by (simp add: kv)
  also have "\<dots> = (map_of xs)(k \<mapsto> x)"
    using fresh by (auto simp: map_add_def fun_eq_iff split: option.splits)
  finally show ?case by (simp add: kv)
qed

lemma map_of_dict_update:
  "distinct (map fst v) \<Longrightarrow> map_of (dict_update d v) = map_of d ++ map_of v"
  by (simp add: dict_update_def map_of_fold_update map_of_rev_distinct)

lemma keys_dict_update: "fst ` set (dict_update d v) = fst ` set d \<union> fst ` set v"
proof -
  have "dom (map_of (dict_update d v)) = dom (map_of d) \<union> dom (map_of (rev v))"
    by (simp add: dict_update_def map_of_fold_update Un_commute)
  then show ?thesis
    by (simp add: dom_map_of_conv_image_fst)
qed

text \<open>
  Claim C6. For a rule whose combiner is \<^verbatim>\<open>combine\<close>: when only one of the default
  and the message value is present, the result is that one, unchanged; two lists give the
  default's elements followed by the message's; two mappings give a mapping whose keys are
  the keys of both, where a key of the message's mapping (a dictionary, so with distinct
  keys) has the message's value and any other key the default's.
\<close>

theorem combine_merges:
  assumes "distinct (map fst vm)"
  shows "combine UNSET v = Inr v
   \<and> combine d UNSET = Inr d
   \<and> combine (PyList ds) (PyList vs) = Inr (PyList (ds @ vs))
   \<and> combine (PyDict dm) (PyDict vm) = Inr (PyDict (dict_update dm vm))
   \<and> map_of (dict_update dm vm) k =
       (case map_of vm k of Some x \<Rightarrow> Some x | None \<Rightarrow> map_of dm k)
   \<and> fst ` set (dict_update dm vm) = fst ` set dm \<union> fst ` set vm
   \<and> apply_combiner Combine d v = combine d v"
proof -
  have m: "map_of (dict_update dm vm) k =
       (case map_of vm k of Some x \<Rightarrow> Some x | None \<Rightarrow> map_of dm k)"
    using assms by (simp add: map_of_dict_update map_add_def split: option.splits)
  show ?thesis
    using m keys_dict_update [of dm vm] by (simp add: combine_def)
qed


theorem combine_merges_witness:
  "distinct (map fst [(''b'', PyInt 3), (''c'', PyInt 4)])
   \<and> combine (PyDict [(''a'', PyInt 1), (''b'', PyInt 2)]) (PyDict [(''b'', PyInt 3), (''c'', PyInt 4)])
       = Inr (PyDict [(''a'', PyInt 1), (''b'', PyInt 3), (''c'', PyInt 4)])
   \<and> map_of (dict_update [(''a'', PyInt 1), (''b'', PyInt 2)] [(''b'', PyInt 3), (''c'', PyInt 4)]) ''b''
       = Some (PyInt 3)
   \<and> combine (PyList [PyStr ''x'']) (PyList [PyStr ''y'', PyStr ''x''])
       = Inr (PyList [PyStr ''x'', PyStr ''y'', PyStr ''x''])
   \<and> combine UNSET (PyList [PyStr ''y'']) = Inr (PyList [PyStr ''y''])
   \<and> combine (PyList [PyStr ''x'']) UNSET = Inr (PyList [PyStr ''x''])"
proof -
  have d: "distinct (map fst [(''b'', PyInt 3), (''c'', PyInt 4)])"
    by simp
  have u: "dict_update [(''a'', PyInt 1), (''b'', PyInt 2)] [(''b'', PyInt 3), (''c'', PyInt 4)]
           = [(''a'', PyInt 1), (''b'', PyInt 3), (''c'', PyInt 4)]"
    by (simp add: dict_update_def)
  from combine_merges [OF d, of "PyList [PyStr ''y'']" "PyList [PyStr ''x'']"
         "[PyStr ''x'']" "[PyStr ''y'', PyStr ''x'']" "[(''a'', PyInt 1), (''b'', PyInt 2)]" "''b''"]
  show ?thesis
    by (simp add: u)
qed

lemma inherited_unsupported:
  "\<forall>attr \<in> set unsupported_by_default.
     attr \<noteq> ''body'' \<and>
     (\<exists>setter. BasePayload_method b cls esp (''set_'' @ attr) = Some setter
        \<and> (\<forall>value p. setter value p = unsupported_feature b esp attr p))"
  unfolding unsupported_by_default_def
  by (simp add: BasePayload_method_def set_reply_to_def
        set_extra_headers_def set_metadata_def set_send_at_def set_tags_def set_track_clicks_def
        set_track_opens_def set_template_id_def set_merge_data_def set_merge_global_data_def
        set_esp_extra_def)

lemma inherited_setter:
  assumes "attr \<in> set unsupported_by_default" and "methods cls (''set_'' @ attr) = None"
  shows "\<exists>setter. find_setter b cls esp m attr = Inr (''set_'' @ attr, setter)
           \<and> (\<forall>value p. setter value p = unsupported_feature b esp attr p)"
proof -
  from inherited_unsupported [of b cls esp] assms(1)
  obtain setter where "attr \<noteq> ''body''"
    and "BasePayload_method b cls esp (''set_'' @ attr) = Some setter"
    and "\<forall>value p. setter value p = unsupported_feature b esp attr p"
    by blast
  with assms(2) show ?thesis
    by (simp add: find_setter_def getattr_payload_def)
qed

text \<open>
  Claim C7. For an attribute whose setter the payload class inherits from
  \<^verbatim>\<open>BasePayload\<close> and whose inherited setter reports the feature as unsupported:
  \<^verbatim>\<open>unsupported_feature\<close> raises \<^verbatim>\<open>AnymailUnsupportedFeature\<close> if the setting
  \<^verbatim>\<open>ignore_unsupported_features\<close> is unset and returns with the payload unchanged if it
  is set; the setter found for the attribute does just that; and so the round of the loop
  for a value that reaches the setter either raises or leaves the payload as it was, from
  which the loop goes on. The witness sends a message with \<^verbatim>\<open>tags=["x"]\<close> through the
  test provider, which has no \<^verbatim>\<open>set_tags\<close>: in permissive mode the send succeeds and
  the payload has no tags.
\<close>

theorem unsupported_feature_raises_unless_ignored:
  assumes "attr \<in> set unsupported_by_default" and "methods cls (''set_'' @ attr) = None"
  shows "unsupported_feature b esp attr p =
           (if ignore_unsupported_features b then Inr p
            else Inl (AnymailUnsupportedFeature (esp @ '' does not support '' @ attr)))
         \<and> (\<exists>setter. find_setter b cls esp m attr = Inr (''set_'' @ attr, setter)
               \<and> setter v p = unsupported_feature b esp attr p)
         \<and> ((case combiner of
                None \<Rightarrow> Inr (getattr_message m attr)
              | Some c \<Rightarrow> apply_combiner c (defaults attr) (getattr_message m attr)) = Inr v0
             \<and> v0 \<noteq> UNSET \<and> convert env cls m converter v0 = Inr v \<and> v \<noteq> UNSET
            \<longrightarrow> set_attr env b cls esp m defaults (attr, combiner, converter) p calls =
                  (if ignore_unsupported_features b then Inr p
                   else Inl (AnymailUnsupportedFeature (esp @ '' does not support '' @ attr)),
                   calls @ [(''set_'' @ attr, v)]))"
proof -
  from inherited_setter [OF assms] obtain setter
    where setter: "find_setter b cls esp m attr = Inr (''set_'' @ attr, setter)"
      "\<And>value p. setter value p = unsupported_feature b esp attr p"
    by blast
  have u: "unsupported_feature b esp attr p =
           (if ignore_unsupported_features b then Inr p
            else Inl (AnymailUnsupportedFeature (esp @ '' does not support '' @ attr)))"
    by (simp add: unsupported_feature_def)
  have "set_attr env b cls esp m defaults (attr, combiner, converter) p calls =
          (unsupported_feature b esp attr p, calls @ [(''set_'' @ attr, v)])"
    if "(case combiner of
                None \<Rightarrow> Inr (getattr_message m attr)
              | Some c \<Rightarrow> apply_combiner c (defaults attr) (getattr_message m attr)) = Inr v0"
      "v0 \<noteq> UNSET" "convert env cls m converter v0 = Inr v" "v \<noteq> UNSET"
    using that setter by (simp add: set_attr_def)
  with u setter show ?thesis by auto
qed

theorem unsupported_feature_raises_unless_ignored_witness:
  "''tags'' \<in> set unsupported_by_default \<and> methods test_payload (''set_'' @ ''tags'') = None
   \<and> unsupported_feature (test_base\<lparr>ignore_unsupported_features := True\<rparr>) ''Test'' ''tags'' ([]::(string \<times> pyval) list) = Inr []
   \<and> unsupported_feature test_base ''Test'' ''tags'' ([]::(string \<times> pyval) list)
       = Inl (AnymailUnsupportedFeature ''Test does not support tags'')
   \<and> fst (send_message no_receivers permissive_backend tagged_message start) = Inr True
   \<and> BasePayload_init test_env (test_base\<lparr>ignore_unsupported_features := True\<rparr>) test_payload
        tagged_message (\<lambda>attr. UNSET)
       = (Inr [(''from'', PyStr ''from@example.com''), (''to'', PyStr ''a@example.com''),
               (''subject'', PyStr ''hi''), (''text'', PyStr ''Hello'')],
          [(''set_from_email'', PyStr ''from@example.com''),
           (''set_to'', PyList [PyStr ''a@example.com'']), (''set_cc'', PyList []),
           (''set_bcc'', PyList []), (''set_subject'', PyStr ''hi''),
           (''set_text_body'', PyStr ''Hello''), (''set_tags'', PyList [PyStr ''x''])])
   \<and> fst (send_message no_receivers test_backend tagged_message start)
       = Inl (AnymailUnsupportedFeature ''Test does not support tags'')"
proof -
  have a: "''tags'' \<in> set unsupported_by_default"
    by (simp add: unsupported_by_default_def)
  have b: "methods test_payload (''set_'' @ ''tags'') = None"
    by (simp add: test_payload_def)
  have sent: "fst (send_message no_receivers permissive_backend tagged_message start) = Inr True"
    by (simp add: permissive_backend_def tagged_message_def backend_defs test_defs payload_defs)
  have built: "BasePayload_init test_env (test_base\<lparr>ignore_unsupported_features := True\<rparr>) test_payload
        tagged_message (\<lambda>attr. UNSET)
       = (Inr [(''from'', PyStr ''from@example.com''), (''to'', PyStr ''a@example.com''),
               (''subject'', PyStr ''hi''), (''text'', PyStr ''Hello'')],
          [(''set_from_email'', PyStr ''from@example.com''),
           (''set_to'', PyList [PyStr ''a@example.com'']), (''set_cc'', PyList []),
           (''set_bcc'', PyList []), (''set_subject'', PyStr ''hi''),
           (''set_text_body'', PyStr ''Hello''), (''set_tags'', PyList [PyStr ''x''])])"
    by (simp add: tagged_message_def get_esp_name_def test_defs payload_defs)
  have refused: "fst (send_message no_receivers test_backend tagged_message start)
       = Inl (AnymailUnsupportedFeature ''Test does not support tags'')"
    by (simp add: tagged_message_def backend_defs test_defs payload_defs)
  from unsupported_feature_raises_unless_ignored
         [OF a b, of "test_base\<lparr>ignore_unsupported_features := True\<rparr>" "''Test''" "[]"]
       unsupported_feature_raises_unless_ignored [OF a b, of test_base "''Test''" "[]"]
  have "unsupported_feature (test_base\<lparr>ignore_unsupported_features := True\<rparr>) ''Test'' ''tags''
          ([]::(string \<times> pyval) list) = Inr []
     \<and> unsupported_feature test_base ''Test'' ''tags'' ([]::(string \<times> pyval) list)
       = Inl (AnymailUnsupportedFeature ''Test does not support tags'')"
    by (simp add: test_base_def)
  with a b sent built refused show ?thesis by simp
qed

section \<open>The timestamp converter\<close>

lemma aware_datetime_result:
  assumes "aware_datetime env x = Inr y"
  shows "(\<exists>dt. y = PyDatetime dt \<and> tzinfo dt \<noteq> None) \<or> aware_datetime env y = Inr y"
proof (cases "\<exists>dt. y = PyDatetime dt \<and> tzinfo dt \<noteq> None")
  case True
  then show ?thesis by simp
next
  case False
  with assms have "y = x"
    by (auto simp: aware_datetime_def make_aware_def is_naive_def
        split: pyval.splits sum.splits option.splits if_splits)
  with assms show ?thesis by simp
qed

lemma aware_datetime_aware:
  "tzinfo dt \<noteq> None \<Longrightarrow> aware_datetime env (PyDatetime dt) = Inr (PyDatetime dt)"
  by (auto simp: aware_datetime_def is_naive_def)

text \<open>
  Claim C9. \<^verbatim>\<open>aware_datetime\<close> is idempotent: applying it to what it returned gives
  the same value again (and where it raises there is nothing to apply it to). A datetime
  that is already aware is returned unchanged, and so is a value that is neither a
  datetime nor a date and that \<^verbatim>\<open>utcfromtimestamp\<close> rejects with \<^verbatim>\<open>TypeError\<close> or
  \<^verbatim>\<open>ValueError\<close>.
\<close>

theorem aware_datetime_idempotent:
  "(case aware_datetime env x of Inl e \<Rightarrow> Inl e | Inr y \<Rightarrow> aware_datetime env y)
     = aware_datetime env x
   \<and> (tzinfo dt \<noteq> None \<longrightarrow> aware_datetime env (PyDatetime dt) = Inr (PyDatetime dt))
   \<and> ((\<forall>d. x \<noteq> PyDatetime d) \<and> (\<forall>d. x \<noteq> PyDate d) \<and> utcfromtimestamp env x = Inl e
        \<and> (isinstance_exn e ''TypeError'' \<or> isinstance_exn e ''ValueError'')
      \<longrightarrow> aware_datetime env x = Inr x)"
proof -
  have idem: "(case aware_datetime env x of Inl e \<Rightarrow> Inl e | Inr y \<Rightarrow> aware_datetime env y)
     = aware_datetime env x"
  proof (cases "aware_datetime env x")
    case (Inl e)
    then show ?thesis by simp
  next
    case (Inr y)
    from aware_datetime_result [OF Inr] have "aware_datetime env y = Inr y"
      by (auto simp: aware_datetime_aware)
    with Inr show ?thesis by simp
  qed
  have other: "aware_datetime env x = Inr x"
    if "\<forall>d. x \<noteq> PyDatetime d" "\<forall>d. x \<noteq> PyDate d" "utcfromtimestamp env x = Inl e"
      "isinstance_exn e ''TypeError'' \<or> isinstance_exn e ''ValueError''"
    using that by (cases x) (auto simp: aware_datetime_def)
  from idem other show ?thesis
    by (simp add: aware_datetime_aware)
qed

theorem aware_datetime_idempotent_witness:
  "aware_datetime test_env (PyDate (Date 2024 3 1))
     = Inr (PyDatetime \<lparr>year = 2024, month = 3, day = 1, hour = 0, minute = 0, second = 0,
                         microsecond = 0, tzinfo = Some ''+02:00''\<rparr>)
   \<and> aware_datetime test_env
        (PyDatetime \<lparr>year = 2024, month = 3, day = 1, hour = 0, minute = 0, second = 0,
                      microsecond = 0, tzinfo = Some ''+02:00''\<rparr>)
     = Inr (PyDatetime \<lparr>year = 2024, month = 3, day = 1, hour = 0, minute = 0, second = 0,
                         microsecond = 0, tzinfo = Some ''+02:00''\<rparr>)
   \<and> aware_datetime test_env (PyInt 3661)
     = Inr (PyDatetime \<lparr>year = 1970, month = 1, day = 1, hour = 1, minute = 1, second = 1,
                         microsecond = 0, tzinfo = Some ''UTC''\<rparr>)
   \<and> utcfromtimestamp test_env (PyStr ''tomorrow'') = Inl (TypeError ''an integer is required'')
   \<and> aware_datetime test_env (PyStr ''tomorrow'') = Inr (PyStr ''tomorrow'')"
proof -
  let ?dt = "\<lparr>year = 2024, month = 3, day = 1, hour = 0, minute = 0, second = 0,
                         microsecond = 0, tzinfo = Some ''+02:00''\<rparr>"
  have date: "aware_datetime test_env (PyDate (Date 2024 3 1)) = Inr (PyDatetime ?dt)"
    by (simp add: aware_datetime_def is_naive_def make_aware_def test_env_def)
  have stamp: "aware_datetime test_env (PyInt 3661)
     = Inr (PyDatetime \<lparr>year = 1970, month = 1, day = 1, hour = 1, minute = 1, second = 1,
                         microsecond = 0, tzinfo = Some ''UTC''\<rparr>)"
    by (simp add: aware_datetime_def is_naive_def make_aware_def test_env_def
        test_utcfromtimestamp_def utc_def)
  have str: "utcfromtimestamp test_env (PyStr ''tomorrow'') = Inl (TypeError ''an integer is required'')"
    by (simp add: test_env_def test_utcfromtimestamp_def)
  have te: "isinstance_exn (TypeError ''an integer is required'') ''TypeError''"
    by (simp add: isinstance_exn_def TypeError_def)
  from aware_datetime_idempotent [of test_env "PyDate (Date 2024 3 1)" ?dt] date
  have again: "aware_datetime test_env (PyDatetime ?dt) = Inr (PyDatetime ?dt)"
    by simp
  from aware_datetime_idempotent
         [of test_env "PyStr ''tomorrow''" ?dt "TypeError ''an integer is required''"] str te
  have unchanged: "aware_datetime test_env (PyStr ''tomorrow'') = Inr (PyStr ''tomorrow'')"
    by simp
  from date again stamp str unchanged show ?thesis by simp
qed

end
